theory Spec2Isabelle
  imports Main "HOL-Library.Sublist"
begin

section \<open>JavaScript values as the audit sees them\<close>

text \<open>
  The audit works on the values \<^verbatim>\<open>JSON.parse\<close> produces (the submission, the
  payloads of the three fetches) and on \<^verbatim>\<open>undefined\<close>, the result of reading a
  property that is not there. A string is a list of code units; a \<^typ>\<open>char\<close> stands for
  one UTF-16 code unit below 256, so \<^const>\<open>length\<close> is JavaScript's \<^verbatim>\<open>.length\<close> on
  such strings. A number is kept as its \<^verbatim>\<open>Number::toString\<close> rendering, which is
  all the audit ever observes of it: the rendering is what a template literal
  inserts, and a number is falsy exactly when it renders as \<^verbatim>\<open>0\<close> (both zeros) or
  \<^verbatim>\<open>NaN\<close>. An object is the list of its own properties in insertion order.
\<close>

datatype jsval =
    VUndefined
  | VNull
  | VBool bool
  | VNum string
  | VStr string
  | VArr "jsval list"
  | VObj "(string \<times> jsval) list"

text \<open>An exception or a promise rejection, as the \<^verbatim>\<open>catch\<close> clauses read it:
  \<^verbatim>\<open>error.status\<close>, \<^verbatim>\<open>error.message\<close> and \<^verbatim>\<open>error.response?.status\<close>
  (\<open>None\<close> where the property is undefined).\<close>

datatype js_error =
  JsError (err_status: "nat option") (err_message: string) (err_response_status: "nat option")

definition TypeError :: "string \<Rightarrow> js_error" where
  "TypeError m = JsError None m None"

fun truthy :: "jsval \<Rightarrow> bool" where
  "truthy VUndefined = False"
| "truthy VNull = False"
| "truthy (VBool b) = b"
| "truthy (VNum n) = (n \<noteq> ''0'' \<and> n \<noteq> ''NaN'')"
| "truthy (VStr s) = (s \<noteq> [])"
| "truthy (VArr vs) = True"
| "truthy (VObj kvs) = True"

fun typeof :: "jsval \<Rightarrow> string" where
  "typeof VUndefined = ''undefined''"
| "typeof VNull = ''object''"
| "typeof (VBool b) = ''boolean''"
| "typeof (VNum n) = ''number''"
| "typeof (VStr s) = ''string''"
| "typeof (VArr vs) = ''object''"
| "typeof (VObj kvs) = ''object''"

fun nullish :: "jsval \<Rightarrow> bool" where
  "nullish VUndefined = True"
| "nullish VNull = True"
| "nullish v = False"

text \<open>\<^verbatim>\<open>v?.k\<close>: optional chaining. The property names the audit reads (\<^verbatim>\<open>repo\<close>,
  \<^verbatim>\<open>owner\<close>, \<^verbatim>\<open>private\<close>, \<^verbatim>\<open>login\<close>, \<^verbatim>\<open>url\<close>, ...) are neither own nor
  prototype properties of a boolean, number, string or array, so reading them
  there gives \<^verbatim>\<open>undefined\<close>.\<close>

fun prop_of :: "jsval \<Rightarrow> string \<Rightarrow> jsval" where
  "prop_of (VObj kvs) k = (case map_of kvs k of None \<Rightarrow> VUndefined | Some v \<Rightarrow> v)"
| "prop_of v k = VUndefined"

definition quote :: "string \<Rightarrow> string" where
  "quote k = CHR 0x27 # k @ [CHR 0x27]"

definition cannot_read :: "jsval \<Rightarrow> string \<Rightarrow> js_error" where
  "cannot_read v k = TypeError (''Cannot read properties of ''
     @ (if v = VNull then ''null'' else ''undefined'') @ '' (reading '' @ quote k @ '')'')"

definition not_a_function :: "string \<Rightarrow> js_error" where
  "not_a_function what = TypeError (what @ '' is not a function'')"

text \<open>\<^verbatim>\<open>v.k\<close>: throws a TypeError on \<^verbatim>\<open>null\<close> and \<^verbatim>\<open>undefined\<close>.\<close>

definition get_prop :: "jsval \<Rightarrow> string \<Rightarrow> js_error + jsval" where
  "get_prop v k = (if nullish v then Inl (cannot_read v k) else Inr (prop_of v k))"

fun join_commas :: "string list \<Rightarrow> string" where
  "join_commas [] = []"
| "join_commas [s] = s"
| "join_commas (s # t # ss) = s @ '','' @ join_commas (t # ss)"

text \<open>The conversion a template literal applies to an inserted value.\<close>

fun toString :: "jsval \<Rightarrow> string" where
  "toString VUndefined = ''undefined''"
| "toString VNull = ''null''"
| "toString (VBool b) = (if b then ''true'' else ''false'')"
| "toString (VNum n) = n"
| "toString (VStr s) = s"
| "toString (VArr vs) = join_commas (map (\<lambda>v. if nullish v then [] else toString v) vs)"
| "toString (VObj kvs) = ''[object Object]''"

text \<open>\<^verbatim>\<open>s.includes(sub)\<close> on strings: \<open>sub\<close> occurs in \<open>s\<close> as a contiguous run.\<close>

fun str_includes :: "string \<Rightarrow> string \<Rightarrow> bool" where
  "str_includes [] sub = (sub = [])"
| "str_includes (c # s) sub = (prefix sub (c # s) \<or> str_includes s sub)"

text \<open>\<^verbatim>\<open>v.includes(x)\<close> with a string argument, for any receiver: a string searches
  for a substring, an array for an element equal to the string, and anything
  else has no callable \<^verbatim>\<open>includes\<close>. \<open>what\<close> is the expression, for the message.\<close>

fun call_includes :: "string \<Rightarrow> jsval \<Rightarrow> string \<Rightarrow> js_error + bool" where
  "call_includes what VUndefined x = Inl (cannot_read VUndefined ''includes'')"
| "call_includes what VNull x = Inl (cannot_read VNull ''includes'')"
| "call_includes what (VStr s) x = Inr (str_includes s x)"
| "call_includes what (VArr vs) x = Inr (VStr x \<in> set vs)"
| "call_includes what v x = Inl (not_a_function (what @ ''.includes''))"

text \<open>White space that \<^verbatim>\<open>String.prototype.trim\<close> strips, among the code units below
  256: tab, line feed, vertical tab, form feed, carriage return, space and the
  no-break space.\<close>

definition is_space :: "char \<Rightarrow> bool" where
  "is_space c = (c \<in> set [CHR 0x09, CHR 0x0A, CHR 0x0B, CHR 0x0C, CHR 0x0D, CHR 0x20, CHR 0xA0])"

definition trim :: "string \<Rightarrow> string" where
  "trim s = rev (dropWhile is_space (rev (dropWhile is_space s)))"

text \<open>\<^verbatim>\<open>v.trim().length\<close> for a truthy receiver: only a string has \<^verbatim>\<open>trim\<close>.\<close>

fun trim_length :: "string \<Rightarrow> jsval \<Rightarrow> js_error + nat" where
  "trim_length what (VStr s) = Inr (length (trim s))"
| "trim_length what VUndefined = Inl (cannot_read VUndefined ''trim'')"
| "trim_length what VNull = Inl (cannot_read VNull ''trim'')"
| "trim_length what v = Inl (not_a_function (what @ ''.trim''))"

definition digit :: "nat \<Rightarrow> char" where
  "digit d = ''0123456789'' ! d"

fun show_nat :: "nat \<Rightarrow> string" where
  "show_nat n = (if n < 10 then [digit n] else show_nat (n div 10) @ [digit (n mod 10)])"

declare show_nat.simps [simp del]

text \<open>Setting a property of an object literal: an existing key keeps its place.\<close>

fun set_header :: "string \<Rightarrow> string \<Rightarrow> (string \<times> string) list \<Rightarrow> (string \<times> string) list" where
  "set_header k v [] = [(k, v)]"
| "set_header k v ((k', v') # hs) = (if k = k' then (k, v) # hs else (k', v') # set_header k v hs)"

definition spread :: "(string \<times> string) list \<Rightarrow> (string \<times> string) list \<Rightarrow> (string \<times> string) list" where
  "spread hs more = foldl (\<lambda>acc (k, v). set_header k v acc) hs more"

section \<open>The transport and the built-ins the audit calls\<close>

text \<open>
  What \<^verbatim>\<open>https.get\<close> does with one request: it throws at once (a malformed
  request path), the request emits \<^verbatim>\<open>error\<close>, or a response arrives with a status
  code, headers and a complete body. The transport is assumed to do one of the
  three; a connection that never ends is outside the model.
\<close>

datatype http_outcome =
    Throws string
  | ErrorEvent string
  | Response nat "(string \<times> string) list" string

text \<open>The environment of one run: the transport, \<^verbatim>\<open>JSON.parse\<close> (\<open>Inl\<close> the
  SyntaxError's message), \<^verbatim>\<open>new Date(reset * 1000).toLocaleString()\<close> as a function
  of the \<^verbatim>\<open>x-ratelimit-reset\<close> header (\<open>None\<close> when the header is absent) and
  \<^verbatim>\<open>encodeURIComponent\<close>, which is total here: it throws only on a lone surrogate,
  and a string of code units below 256 has none.\<close>

record env =
  https_get :: "string \<Rightarrow> (string \<times> string) list \<Rightarrow> http_outcome"
  JSON_parse :: "string \<Rightarrow> string + jsval"
  toLocaleString :: "string option \<Rightarrow> string"
  encodeURIComponent :: "string \<Rightarrow> string"

record PluginAuditor =
  githubToken :: "string option"

record response =
  data :: jsval
  status :: nat
  headers :: "(string \<times> string) list option"

section \<open>makeRequest (src/unnamed/part_000, lines 14-93)\<close>

definition token_applies :: "PluginAuditor \<Rightarrow> string \<Rightarrow> bool" where
  "token_applies this url =
     (githubToken this \<noteq> None \<and> githubToken this \<noteq> Some [] \<and> str_includes url ''api.github.com'')"

definition request_headers :: "PluginAuditor \<Rightarrow> string \<Rightarrow> (string \<times> string) list \<Rightarrow> (string \<times> string) list" where
  "request_headers this url options_headers =
     (let headers = spread [(''User-Agent'', ''Maiar-Plugin-Auditor''),
                            (''Accept'', ''application/vnd.github.v3+json'')] options_headers
      in if token_applies this url
         then set_header ''Authorization'' (''token '' @ the (githubToken this)) headers
         else headers)"

text \<open>The promise of \<^verbatim>\<open>makeRequest\<close>: \<open>Inr\<close> what it resolves with, \<open>Inl\<close> what it
  rejects with. An exception that \<^verbatim>\<open>https.get\<close> throws inside the executor rejects
  the promise with the thrown error itself. The rate-limit branch returns before
  the \<^verbatim>\<open>data\<close> and \<^verbatim>\<open>end\<close> handlers are installed, so neither the status code nor the
  body is looked at.\<close>

definition makeRequest ::
  "env \<Rightarrow> PluginAuditor \<Rightarrow> string \<Rightarrow> (string \<times> string) list \<Rightarrow> js_error + response" where
  "makeRequest e this url options_headers =
     (case https_get e url (request_headers this url options_headers) of
        Throws m \<Rightarrow> Inl (JsError None m None)
      | ErrorEvent m \<Rightarrow> Inl (JsError (Some 500) (''Network error: '' @ m) None)
      | Response statusCode res_headers body \<Rightarrow>
          if str_includes url ''api.github.com''
             \<and> map_of res_headers ''x-ratelimit-remaining'' = Some ''0''
          then Inl (JsError (Some 429)
                  (''GitHub API rate limit exceeded. Resets at ''
                     @ toLocaleString e (map_of res_headers ''x-ratelimit-reset''))
                  (Some 429))
          else if statusCode \<ge> 400
          then Inl (JsError (Some statusCode)
                  (''HTTP '' @ show_nat statusCode @ '': '' @ body) (Some statusCode))
          else (case JSON_parse e body of
                  Inl m \<Rightarrow> Inl (JsError (Some 500) (''Failed to parse JSON response: '' @ m) None)
                | Inr v \<Rightarrow> Inr \<lparr>data = v, status = statusCode, headers = Some res_headers\<rparr>))"

section \<open>auditPlugin (src/unnamed/part_000, lines 103-267)\<close>

text \<open>
  The local variables of one call, the submission the caller passed (an object
  the function could write to) and the requests handed to \<^verbatim>\<open>https.get\<close> so far,
  each with its headers.
\<close>

record audit_state =
  submission :: jsval
  issues_acc :: "string list"
  repoData :: "response option"
  npmData :: jsval
  requests :: "(string \<times> (string \<times> string) list) list"

record metadata_obj =
  github :: jsval
  npm :: jsval

text \<open>The object the promise resolves to; \<open>metadata = None\<close> is an object
  without a \<^verbatim>\<open>metadata\<close> property.\<close>

record audit_result =
  passed :: bool
  issues :: "string list"
  metadata :: "metadata_obj option"

datatype outcome = Resolved audit_result | Rejected js_error

record run =
  outcome :: outcome
  final :: audit_state

text \<open>How a block inside the outer \<^verbatim>\<open>try\<close> ends: it falls through, it executes
  \<^verbatim>\<open>return\<close>, or an exception leaves it. The state travels in all three.\<close>

datatype flow =
    Continue audit_state
  | Returned audit_result audit_state
  | Thrown js_error audit_state

definition push :: "string \<Rightarrow> audit_state \<Rightarrow> audit_state" where
  "push issue st = st\<lparr>issues_acc := issues_acc st @ [issue]\<rparr>"

definition await_makeRequest ::
  "env \<Rightarrow> PluginAuditor \<Rightarrow> string \<Rightarrow> (string \<times> string) list \<Rightarrow> audit_state
     \<Rightarrow> (js_error + response) \<times> audit_state" where
  "await_makeRequest e this url options_headers st =
     (makeRequest e this url options_headers,
      st\<lparr>requests := requests st @ [(url, request_headers this url options_headers)]\<rparr>)"

text \<open>The template literal \<^verbatim>\<open>${submission.owner}/${submission.repo}\<close>. It is
  evaluated only after the presence check, where the submission is not nullish.\<close>

definition owner_slash_repo :: "jsval \<Rightarrow> string" where
  "owner_slash_repo sub = toString (prop_of sub ''owner'') @ ''/'' @ toString (prop_of sub ''repo'')"

definition repo_url :: "jsval \<Rightarrow> string" where
  "repo_url sub = ''https://api.github.com/repos/'' @ owner_slash_repo sub"

definition topics_url :: "jsval \<Rightarrow> string" where
  "topics_url sub = ''https://api.github.com/repos/'' @ owner_slash_repo sub @ ''/topics''"

definition npm_url :: "env \<Rightarrow> jsval \<Rightarrow> string" where
  "npm_url e sub = ''https://registry.npmjs.org/''
     @ encodeURIComponent e (toString (prop_of sub ''npm_package_name''))"

definition topics_accept :: "(string \<times> string) list" where
  "topics_accept = [(''Accept'', ''application/vnd.github.mercy-preview+json'')]"

definition missing_fields_issue :: string where
  "missing_fields_issue = ''Missing required fields in submission''"

definition not_public_issue :: string where
  "not_public_issue = ''Repository must be public''"

definition description_issue :: string where
  "description_issue =
     ''Repository must have a clear, descriptive description (minimum 10 characters)''"

definition topic_issue :: string where
  "topic_issue = ''Repository must have the '' @ [CHR 0x22] @ ''maiar'' @ [CHR 0x22] @ '' topic tagged''"

definition npm_public_issue :: string where
  "npm_public_issue = ''npm package must be public''"

definition url_mismatch_issue :: string where
  "url_mismatch_issue = ''npm package repository URL must match GitHub repository''"

text \<open>Lines 119-151: the repository fetch and its \<^verbatim>\<open>catch\<close>. The lines that print
  the rate-limit headers write to the console only and cannot throw.\<close>

definition repo_catch :: "js_error \<Rightarrow> audit_state \<Rightarrow> audit_state" where
  "repo_catch error st =
     (if err_status error = Some 429 then push (err_message error) st
      else if err_response_status error = Some 404 then push ''GitHub repository not found'' st
      else if err_response_status error = Some 403
      then push (''GitHub API access forbidden: '' @ err_message error) st
      else push (''Error accessing GitHub repository: '' @ err_message error) st)"

definition fetch_repository :: "env \<Rightarrow> PluginAuditor \<Rightarrow> audit_state \<Rightarrow> audit_state" where
  "fetch_repository e this st =
     (case await_makeRequest e this (repo_url (submission st)) [] st of
        (Inr repoResponse, st1) \<Rightarrow> st1\<lparr>repoData := Some repoResponse\<rparr>
      | (Inl error, st1) \<Rightarrow> repo_catch error st1)"

text \<open>Lines 170-186: the topics fetch; one \<^verbatim>\<open>catch\<close> takes the rejection and any
  exception of \<^verbatim>\<open>topicsResponse.data.names.includes("maiar")\<close>.\<close>

definition has_maiar :: "jsval \<Rightarrow> js_error + bool" where
  "has_maiar topics_data =
     (case get_prop topics_data ''names'' of
        Inl error \<Rightarrow> Inl error
      | Inr names \<Rightarrow> call_includes ''topicsResponse.data.names'' names ''maiar'')"

definition topics_catch :: "js_error \<Rightarrow> audit_state \<Rightarrow> audit_state" where
  "topics_catch error st = push (''Error checking repository topics: '' @ err_message error) st"

definition check_topics :: "env \<Rightarrow> PluginAuditor \<Rightarrow> audit_state \<Rightarrow> audit_state" where
  "check_topics e this st =
     (case await_makeRequest e this (topics_url (submission st)) topics_accept st of
        (Inl error, st1) \<Rightarrow> topics_catch error st1
      | (Inr topicsResponse, st1) \<Rightarrow>
          (case has_maiar (data topicsResponse) of
             Inl error \<Rightarrow> topics_catch error st1
           | Inr found \<Rightarrow> if \<not> found then push topic_issue st1 else st1))"

text \<open>Lines 154-187: the checks on the repository payload. An exception of
  \<^verbatim>\<open>repoData.data.private\<close> or of \<^verbatim>\<open>description.trim()\<close> leaves for the outer
  \<^verbatim>\<open>catch\<close>.\<close>

definition description_too_short :: "jsval \<Rightarrow> js_error + bool" where
  "description_too_short description =
     (if \<not> truthy description then Inr True
      else case trim_length ''repoData.data.description'' description of
             Inl error \<Rightarrow> Inl error
           | Inr n \<Rightarrow> Inr (n < 10))"

definition check_repository :: "env \<Rightarrow> PluginAuditor \<Rightarrow> audit_state \<Rightarrow> flow" where
  "check_repository e this st =
     (case repoData st of
        None \<Rightarrow> Continue st
      | Some repo \<Rightarrow>
          (case get_prop (data repo) ''private'' of
             Inl error \<Rightarrow> Thrown error st
           | Inr private \<Rightarrow>
               let st1 = (if truthy private then push not_public_issue st else st) in
               (case description_too_short (prop_of (data repo) ''description'') of
                  Inl error \<Rightarrow> Thrown error st1
                | Inr short \<Rightarrow>
                    Continue (check_topics e this
                      (if short then push description_issue st1 else st1)))))"

text \<open>Lines 274-279.\<close>

definition normalizeRepositoryUrl :: "jsval \<Rightarrow> jsval" where
  "normalizeRepositoryUrl repository =
     (if \<not> truthy repository then VStr []
      else if typeof repository = ''string'' then repository
      else if typeof repository = ''object'' \<and> truthy (prop_of repository ''url'')
      then prop_of repository ''url''
      else VStr [])"

text \<open>Lines 189-225: the package fetch; one \<^verbatim>\<open>catch\<close> takes the rejection and any
  exception of the checks on the payload.\<close>

definition npm_catch :: "js_error \<Rightarrow> audit_state \<Rightarrow> audit_state" where
  "npm_catch error st =
     (if err_response_status error = Some 404 then push ''npm package not found'' st
      else push (''Error accessing npm package: '' @ err_message error) st)"

definition cross_reference :: "audit_state \<Rightarrow> audit_state" where
  "cross_reference st =
     (if repoData st \<noteq> None
      then (case call_includes ''normalizedRepoUrl''
                   (normalizeRepositoryUrl (prop_of (npmData st) ''repository''))
                   (owner_slash_repo (submission st)) of
              Inl error \<Rightarrow> npm_catch error st
            | Inr found \<Rightarrow> if \<not> found then push url_mismatch_issue st else st)
      else st)"

definition check_npm :: "env \<Rightarrow> PluginAuditor \<Rightarrow> audit_state \<Rightarrow> audit_state" where
  "check_npm e this st =
     (case await_makeRequest e this (npm_url e (submission st)) [] st of
        (Inl error, st1) \<Rightarrow> npm_catch error st1
      | (Inr npmResponse, st1) \<Rightarrow>
          let st2 = st1\<lparr>npmData := data npmResponse\<rparr> in
          (case get_prop (npmData st2) ''private'' of
             Inl error \<Rightarrow> npm_catch error st2
           | Inr private \<Rightarrow>
               cross_reference (if truthy private then push npm_public_issue st2 else st2)))"

text \<open>\<^verbatim>\<open>return { passed: false, issues }\<close>, as every early exit of both copies writes
  it (here line 116).\<close>

definition return_failed :: "audit_state \<Rightarrow> flow" where
  "return_failed st = Returned \<lparr>passed = False, issues = issues_acc st, metadata = None\<rparr> st"

text \<open>Lines 108-225: the body of the outer \<^verbatim>\<open>try\<close>.\<close>

definition fields_missing :: "jsval \<Rightarrow> js_error + bool" where
  "fields_missing sub =
     (case get_prop sub ''repo'' of
        Inl error \<Rightarrow> Inl error
      | Inr repo \<Rightarrow> Inr (\<not> truthy repo \<or> \<not> truthy (prop_of sub ''owner'')
                          \<or> \<not> truthy (prop_of sub ''npm_package_name'')))"

definition audit_try :: "env \<Rightarrow> PluginAuditor \<Rightarrow> audit_state \<Rightarrow> flow" where
  "audit_try e this st =
     (case fields_missing (submission st) of
        Inl error \<Rightarrow> Thrown error st
      | Inr True \<Rightarrow> return_failed (push missing_fields_issue st)
      | Inr False \<Rightarrow>
          (case check_repository e this (fetch_repository e this st) of
             Continue st2 \<Rightarrow> Continue (check_npm e this st2)
           | ended \<Rightarrow> ended))"

text \<open>Lines 230-266: the final \<^verbatim>\<open>return\<close>, outside the \<^verbatim>\<open>try\<close>. The only read of
  it that can throw is \<^verbatim>\<open>repoData.data.owner.login\<close>.\<close>

definition github_metadata :: "audit_state \<Rightarrow> js_error + jsval" where
  "github_metadata st =
     (case repoData st of
        None \<Rightarrow> Inr VNull
      | Some repo \<Rightarrow>
          if \<not> truthy (data repo) then Inr VNull
          else (case get_prop (prop_of (data repo) ''owner'') ''login'' of
                  Inl error \<Rightarrow> Inl error
                | Inr login \<Rightarrow> Inr (VObj
                    [(''name'', prop_of (data repo) ''name''),
                     (''owner'', login),
                     (''fullName'', prop_of (data repo) ''full_name''),
                     (''stars'', prop_of (data repo) ''stargazers_count''),
                     (''description'', prop_of (data repo) ''description''),
                     (''topics'', prop_of (data repo) ''topics''),
                     (''lastUpdated'', prop_of (data repo) ''updated_at''),
                     (''isPublic'', VBool (\<not> truthy (prop_of (data repo) ''private''))),
                     (''url'', VStr (''https://github.com/'' @ owner_slash_repo (submission st)))])))"

definition normalize_author :: "jsval \<Rightarrow> jsval" where
  "normalize_author author =
     (if typeof author = ''object''
      then VObj [(''name'', prop_of author ''name''),
                 (''email'', prop_of author ''email''),
                 (''url'', prop_of author ''url'')]
      else VObj [(''name'', author), (''email'', VNull), (''url'', VNull)])"

definition npm_metadata :: "audit_state \<Rightarrow> jsval" where
  "npm_metadata st =
     (if \<not> truthy (npmData st) then VNull
      else VObj
        [(''name'', prop_of (submission st) ''npm_package_name''),
         (''version'', prop_of (prop_of (npmData st) ''dist-tags'') ''latest''),
         (''lastPublished'', prop_of (prop_of (npmData st) ''time'') ''modified''),
         (''author'', normalize_author (prop_of (npmData st) ''author'')),
         (''maintainers'', if truthy (prop_of (npmData st) ''maintainers'')
                           then prop_of (npmData st) ''maintainers'' else VArr []),
         (''url'', VStr (''https://www.npmjs.com/package/''
                          @ toString (prop_of (submission st) ''npm_package_name'')))])"

definition final_return :: "audit_state \<Rightarrow> run" where
  "final_return st =
     \<lparr>outcome =
        (case github_metadata st of
           Inl error \<Rightarrow> Rejected error
         | Inr gh \<Rightarrow> Resolved \<lparr>passed = (issues_acc st = []), issues = issues_acc st,
                               metadata = Some \<lparr>github = gh, npm = npm_metadata st\<rparr>\<rparr>),
      final = st\<rparr>"

definition initial_state :: "jsval \<Rightarrow> audit_state" where
  "initial_state sub =
     \<lparr>submission = sub, issues_acc = [], repoData = None, npmData = VNull, requests = []\<rparr>"

definition auditPlugin :: "env \<Rightarrow> PluginAuditor \<Rightarrow> jsval \<Rightarrow> run" where
  "auditPlugin e this sub =
     (case audit_try e this (initial_state sub) of
        Returned result st \<Rightarrow> \<lparr>outcome = Resolved result, final = st\<rparr>
      | Continue st \<Rightarrow> final_return st
      | Thrown error st \<Rightarrow>
          final_return (push (''Unexpected error during audit: '' @ err_message error) st))"

section \<open>The second copy: src/audit.js\<close>

text \<open>
  \<^verbatim>\<open>src/audit.js\<close> holds the same class with an earlier policy: no rate-limit
  inspection, rejections that pass the raw body or the raw exception on, an
  audit that returns at the first failed fetch, and a final \<^verbatim>\<open>return\<close> without
  optional chaining. Its functions carry the suffix \<open>_audit_js\<close>.
\<close>

text \<open>Lines 14-59.\<close>

definition request_headers_audit_js ::
  "PluginAuditor \<Rightarrow> string \<Rightarrow> (string \<times> string) list \<Rightarrow> (string \<times> string) list" where
  "request_headers_audit_js this url options_headers =
     (let headers = spread [(''User-Agent'', ''Maiar-Plugin-Auditor'')] options_headers
      in if token_applies this url
         then set_header ''Authorization'' (''token '' @ the (githubToken this)) headers
         else headers)"

definition makeRequest_audit_js ::
  "env \<Rightarrow> PluginAuditor \<Rightarrow> string \<Rightarrow> (string \<times> string) list \<Rightarrow> js_error + response" where
  "makeRequest_audit_js e this url options_headers =
     (case https_get e url (request_headers_audit_js this url options_headers) of
        Throws m \<Rightarrow> Inl (JsError None m None)
      | ErrorEvent m \<Rightarrow> Inl (JsError None m None)
      | Response statusCode res_headers body \<Rightarrow>
          if statusCode \<ge> 400
          then Inl (JsError (Some statusCode) body (Some statusCode))
          else (case JSON_parse e body of
                  Inl m \<Rightarrow> Inl (JsError None m None)
                | Inr v \<Rightarrow> Inr \<lparr>data = v, status = statusCode, headers = None\<rparr>))"

definition await_makeRequest_audit_js ::
  "env \<Rightarrow> PluginAuditor \<Rightarrow> string \<Rightarrow> (string \<times> string) list \<Rightarrow> audit_state
     \<Rightarrow> (js_error + response) \<times> audit_state" where
  "await_makeRequest_audit_js e this url options_headers st =
     (makeRequest_audit_js e this url options_headers,
      st\<lparr>requests := requests st @ [(url, request_headers_audit_js this url options_headers)]\<rparr>)"

text \<open>Lines 91-99.\<close>

definition repo_catch_audit_js :: "js_error \<Rightarrow> audit_state \<Rightarrow> audit_state" where
  "repo_catch_audit_js error st =
     (if err_response_status error = Some 404 then push ''GitHub repository not found'' st
      else if err_response_status error = Some 403 then push ''GitHub repository is not public'' st
      else push (''Error accessing GitHub repository: '' @ err_message error) st)"

text \<open>Lines 136-165: the package fetch, whose \<^verbatim>\<open>catch\<close> returns, and the two checks
  after it, whose exceptions leave for the outer \<^verbatim>\<open>catch\<close>.\<close>

definition check_npm_audit_js :: "env \<Rightarrow> PluginAuditor \<Rightarrow> audit_state \<Rightarrow> flow" where
  "check_npm_audit_js e this st =
     (case await_makeRequest_audit_js e this (npm_url e (submission st)) [] st of
        (Inl error, st1) \<Rightarrow> return_failed (npm_catch error st1)
      | (Inr npmResponse, st1) \<Rightarrow>
          let st2 = st1\<lparr>npmData := data npmResponse\<rparr> in
          (case get_prop (npmData st2) ''private'' of
             Inl error \<Rightarrow> Thrown error st2
           | Inr private \<Rightarrow>
               let st3 = (if truthy private then push npm_public_issue st2 else st2) in
               (case call_includes ''normalizedRepoUrl''
                       (normalizeRepositoryUrl (prop_of (npmData st3) ''repository''))
                       (owner_slash_repo (submission st3)) of
                  Inl error \<Rightarrow> Thrown error st3
                | Inr found \<Rightarrow>
                    Continue (if \<not> found then push url_mismatch_issue st3 else st3))))"

text \<open>Lines 117-134: the topics fetch, whose \<^verbatim>\<open>catch\<close> returns.\<close>

definition check_topics_audit_js :: "env \<Rightarrow> PluginAuditor \<Rightarrow> audit_state \<Rightarrow> flow" where
  "check_topics_audit_js e this st =
     (case await_makeRequest_audit_js e this (topics_url (submission st)) topics_accept st of
        (Inl error, st1) \<Rightarrow> return_failed (topics_catch error st1)
      | (Inr topicsResponse, st1) \<Rightarrow>
          (case has_maiar (data topicsResponse) of
             Inl error \<Rightarrow> return_failed (topics_catch error st1)
           | Inr found \<Rightarrow> Continue (if \<not> found then push topic_issue st1 else st1)))"

text \<open>Lines 102-115.\<close>

definition check_repository_audit_js :: "audit_state \<Rightarrow> response \<Rightarrow> flow" where
  "check_repository_audit_js st repo =
     (case get_prop (data repo) ''private'' of
        Inl error \<Rightarrow> Thrown error st
      | Inr private \<Rightarrow>
          let st1 = (if truthy private then push not_public_issue st else st) in
          (case description_too_short (prop_of (data repo) ''description'') of
             Inl error \<Rightarrow> Thrown error st1
           | Inr short \<Rightarrow> Continue (if short then push description_issue st1 else st1)))"

text \<open>Lines 74-165: the body of the outer \<^verbatim>\<open>try\<close>.\<close>

definition audit_try_audit_js :: "env \<Rightarrow> PluginAuditor \<Rightarrow> audit_state \<Rightarrow> flow" where
  "audit_try_audit_js e this st =
     (case fields_missing (submission st) of
        Inl error \<Rightarrow> Thrown error st
      | Inr True \<Rightarrow> return_failed (push missing_fields_issue st)
      | Inr False \<Rightarrow>
          (case await_makeRequest_audit_js e this (repo_url (submission st)) [] st of
             (Inl error, st1) \<Rightarrow> return_failed (repo_catch_audit_js error st1)
           | (Inr repoResponse, st1) \<Rightarrow>
               (case check_repository_audit_js (st1\<lparr>repoData := Some repoResponse\<rparr>) repoResponse of
                  Continue st2 \<Rightarrow>
                    (case check_topics_audit_js e this st2 of
                       Continue st3 \<Rightarrow> check_npm_audit_js e this st3
                     | ended \<Rightarrow> ended)
                | ended \<Rightarrow> ended)))"

text \<open>Lines 170-195: the final \<^verbatim>\<open>return\<close>. Every chained read can throw here.\<close>

definition github_metadata_audit_js :: "audit_state \<Rightarrow> js_error + jsval" where
  "github_metadata_audit_js st =
     (case repoData st of
        None \<Rightarrow> Inr VNull
      | Some repo \<Rightarrow>
          (case get_prop (data repo) ''name'' of
             Inl error \<Rightarrow> Inl error
           | Inr name \<Rightarrow>
               (case get_prop (prop_of (data repo) ''owner'') ''login'' of
                  Inl error \<Rightarrow> Inl error
                | Inr login \<Rightarrow> Inr (VObj
                    [(''name'', name),
                     (''owner'', login),
                     (''fullName'', prop_of (data repo) ''full_name''),
                     (''stars'', prop_of (data repo) ''stargazers_count''),
                     (''description'', prop_of (data repo) ''description''),
                     (''topics'', prop_of (data repo) ''topics''),
                     (''lastUpdated'', prop_of (data repo) ''updated_at'')]))))"

definition npm_metadata_audit_js :: "audit_state \<Rightarrow> js_error + jsval" where
  "npm_metadata_audit_js st =
     (if \<not> truthy (npmData st) then Inr VNull
      else (case get_prop (prop_of (npmData st) ''dist-tags'') ''latest'' of
              Inl error \<Rightarrow> Inl error
            | Inr latest \<Rightarrow>
                (case get_prop (prop_of (npmData st) ''time'') ''modified'' of
                   Inl error \<Rightarrow> Inl error
                 | Inr modified \<Rightarrow> Inr (VObj
                     [(''name'', prop_of (submission st) ''npm_package_name''),
                      (''version'', latest),
                      (''lastPublished'', modified),
                      (''author'', prop_of (npmData st) ''author''),
                      (''maintainers'', prop_of (npmData st) ''maintainers'')]))))"

definition final_return_audit_js :: "audit_state \<Rightarrow> run" where
  "final_return_audit_js st =
     \<lparr>outcome =
        (case github_metadata_audit_js st of
           Inl error \<Rightarrow> Rejected error
         | Inr gh \<Rightarrow>
             (case npm_metadata_audit_js st of
                Inl error \<Rightarrow> Rejected error
              | Inr pkg \<Rightarrow> Resolved \<lparr>passed = (issues_acc st = []), issues = issues_acc st,
                                     metadata = Some \<lparr>github = gh, npm = pkg\<rparr>\<rparr>)),
      final = st\<rparr>"

definition auditPlugin_audit_js :: "env \<Rightarrow> PluginAuditor \<Rightarrow> jsval \<Rightarrow> run" where
  "auditPlugin_audit_js e this sub =
     (case audit_try_audit_js e this (initial_state sub) of
        Returned result st \<Rightarrow> \<lparr>outcome = Resolved result, final = st\<rparr>
      | Continue st \<Rightarrow> final_return_audit_js st
      | Thrown error st \<Rightarrow>
          final_return_audit_js
            (push (''Unexpected error during audit: '' @ err_message error) st))"

section \<open>Reading a run\<close>

fun state_of :: "flow \<Rightarrow> audit_state" where
  "state_of (Continue st) = st"
| "state_of (Returned result st) = st"
| "state_of (Thrown error st) = st"


text \<open>The \<^verbatim>\<open>issues\<close> array at the end of the call; every result that is returned
  carries this array.\<close>

definition reported :: "run \<Rightarrow> string list" where
  "reported r = issues_acc (final r)"

text \<open>The issues of the result, when the promise resolves.\<close>

definition resolved_issues :: "run \<Rightarrow> string list option" where
  "resolved_issues r = (case outcome r of Resolved result \<Rightarrow> Some (issues result)
                                         | Rejected error \<Rightarrow> None)"

text \<open>\<^verbatim>\<open>metadata.npm.author\<close> of the result, when the promise resolves and the
  result has a \<^verbatim>\<open>metadata.npm\<close> object.\<close>

definition reported_author :: "run \<Rightarrow> jsval option" where
  "reported_author r =
     (case outcome r of
        Rejected error \<Rightarrow> None
      | Resolved result \<Rightarrow>
          (case metadata result of
             None \<Rightarrow> None
           | Some m \<Rightarrow> if npm m = VNull then None else Some (prop_of (npm m) ''author'')))"

text \<open>The structured form of an author: an object with exactly the properties
  \<^verbatim>\<open>name\<close>, \<^verbatim>\<open>email\<close> and \<^verbatim>\<open>url\<close>.\<close>

definition structured_author :: "jsval \<Rightarrow> bool" where
  "structured_author v =
     (case v of VObj kvs \<Rightarrow> map fst kvs = [''name'', ''email'', ''url''] | _ \<Rightarrow> False)"

text \<open>The issues that come from the package stage (steps 4 and 5 of the spec).\<close>

definition npm_stage_issue :: "string \<Rightarrow> bool" where
  "npm_stage_issue i =
     (i = ''npm package not found'' \<or> prefix ''Error accessing npm package: '' i
      \<or> i = npm_public_issue \<or> i = url_mismatch_issue)"

text \<open>All three required fields are present and non-empty: the submission is an
  object and each field is truthy.\<close>

definition fields_present :: "jsval \<Rightarrow> bool" where
  "fields_present sub =
     (\<not> nullish sub \<and> truthy (prop_of sub ''repo'') \<and> truthy (prop_of sub ''owner'')
      \<and> truthy (prop_of sub ''npm_package_name''))"

text \<open>A repository payload on which the visibility and description checks run to
  the end: it is not \<^verbatim>\<open>null\<close>, and its description is a string or falsy.\<close>

definition checks_apply :: "jsval \<Rightarrow> bool" where
  "checks_apply payload =
     (\<not> nullish payload
      \<and> (\<not> truthy (prop_of payload ''description'')
           \<or> typeof (prop_of payload ''description'') = ''string''))"

text \<open>Step 3 of the spec, in its words: the description is absent, or its trimmed
  length is below 10.\<close>

fun short_description :: "jsval \<Rightarrow> bool" where
  "short_description (VStr s) = (length (trim s) < 10)"
| "short_description v = True"

definition repository_issues :: "jsval \<Rightarrow> string list" where
  "repository_issues payload =
     (if truthy (prop_of payload ''private'') then [not_public_issue] else [])
     @ (if short_description (prop_of payload ''description'') then [description_issue] else [])"

text \<open>The message of the rate-limit rejection: a fixed text followed by the reset
  time as \<^verbatim>\<open>toLocaleString\<close> formats it.\<close>

definition rate_limit_message :: "env \<Rightarrow> (string \<times> string) list \<Rightarrow> string" where
  "rate_limit_message e res_headers =
     ''GitHub API rate limit exceeded. Resets at ''
       @ toLocaleString e (map_of res_headers ''x-ratelimit-reset'')"

section \<open>Concrete submissions, payloads and transports\<close>

definition submission_x :: jsval where
  "submission_x = VObj [(''repo'', VStr ''plugin-x''), (''owner'', VStr ''acme''),
                        (''npm_package_name'', VStr ''plugin-x'')]"

definition auditor0 :: PluginAuditor where
  "auditor0 = \<lparr>githubToken = None\<rparr>"

definition repository_document :: "string \<Rightarrow> jsval" where
  "repository_document description = VObj
     [(''name'', VStr ''plugin-x''),
      (''full_name'', VStr ''acme/plugin-x''),
      (''owner'', VObj [(''login'', VStr ''acme'')]),
      (''private'', VBool False),
      (''description'', VStr description),
      (''stargazers_count'', VNum ''7''),
      (''topics'', VArr [VStr ''maiar'']),
      (''updated_at'', VStr ''2025-06-01T00:00:00Z'')]"

text \<open>What the repository endpoint sends with status 301 for a repository that was
  renamed or transferred; \<^verbatim>\<open>https.get\<close> does not follow the redirect.\<close>

definition moved_document :: jsval where
  "moved_document = VObj
     [(''message'', VStr ''Moved Permanently''),
      (''url'', VStr ''https://api.github.com/repositories/1296269''),
      (''documentation_url'', VStr ''https://docs.github.com/rest/repos/repos'')]"

definition topics_document :: jsval where
  "topics_document = VObj [(''names'', VArr [VStr ''maiar''])]"

definition package_document :: jsval where
  "package_document = VObj
     [(''name'', VStr ''plugin-x''),
      (''dist-tags'', VObj [(''latest'', VStr ''1.0.0'')]),
      (''time'', VObj [(''modified'', VStr ''2025-06-02T00:00:00Z'')]),
      (''author'', VStr ''Jane Doe''),
      (''maintainers'', VArr [VObj [(''name'', VStr ''jane'')]]),
      (''repository'', VObj [(''type'', VStr ''git''),
                             (''url'', VStr ''git+https://github.com/acme/plugin-x.git'')])]"

text \<open>The bodies the transports below send, named by what \<^verbatim>\<open>JSON.parse\<close> makes of
  them.\<close>

definition parse_documents :: "string \<Rightarrow> string + jsval" where
  "parse_documents body =
     (if body = ''<repository>'' then Inr (repository_document ''A plugin for things'')
      else if body = ''<repository, padded description>'' then Inr (repository_document ''My plugin '')
      else if body = ''<moved permanently>'' then Inr moved_document
      else if body = ''<topics>'' then Inr topics_document
      else if body = ''<package>'' then Inr package_document
      else Inl ''Unexpected token'')"

definition serve :: "(string \<times> http_outcome) list \<Rightarrow> string \<Rightarrow> (string \<times> string) list \<Rightarrow> http_outcome" where
  "serve table url sent_headers =
     (case map_of table url of Some answer \<Rightarrow> answer | None \<Rightarrow> Response 404 [] ''Not Found'')"

text \<open>\<^verbatim>\<open>encodeURIComponent\<close> leaves every character of \<^verbatim>\<open>plugin-x\<close> as it is.\<close>

definition world :: "(string \<times> http_outcome) list \<Rightarrow> env" where
  "world table =
     \<lparr>https_get = serve table,
      JSON_parse = parse_documents,
      toLocaleString = (\<lambda>reset. if reset = Some ''1767225600'' then ''1/1/2026, 12:00:00 AM''
                                  else ''Invalid Date''),
      encodeURIComponent = (\<lambda>s. s)\<rparr>"

definition quota :: "string \<Rightarrow> (string \<times> string) list" where
  "quota remaining = [(''x-ratelimit-limit'', ''60''), (''x-ratelimit-remaining'', remaining),
                      (''x-ratelimit-reset'', ''1767225600'')]"

definition repo_x :: string where
  "repo_x = ''https://api.github.com/repos/acme/plugin-x''"

definition topics_x :: string where
  "topics_x = ''https://api.github.com/repos/acme/plugin-x/topics''"

definition package_x :: string where
  "package_x = ''https://registry.npmjs.org/plugin-x''"

definition net_happy :: "(string \<times> http_outcome) list" where
  "net_happy = [(repo_x, Response 200 (quota ''59'') ''<repository>''),
                (topics_x, Response 200 (quota ''58'') ''<topics>''),
                (package_x, Response 200 [] ''<package>'')]"

definition net_status :: "nat \<Rightarrow> (string \<times> http_outcome) list" where
  "net_status code = [(repo_x, Response code (quota ''59'') ''denied''),
                      (package_x, Response 200 [] ''<package>'')]"

definition net_repo_limited :: "(string \<times> http_outcome) list" where
  "net_repo_limited = [(repo_x, Response 200 (quota ''0'') ''<repository>''),
                       (topics_x, Response 200 (quota ''0'') ''<topics>''),
                       (package_x, Response 200 [] ''<package>'')]"

definition net_topics_limited :: "(string \<times> http_outcome) list" where
  "net_topics_limited = [(repo_x, Response 200 (quota ''1'') ''<repository>''),
                         (topics_x, Response 200 (quota ''0'') ''<topics>''),
                         (package_x, Response 200 [] ''<package>'')]"

definition net_padded :: "(string \<times> http_outcome) list" where
  "net_padded = [(repo_x, Response 200 (quota ''59'') ''<repository, padded description>''),
                 (topics_x, Response 200 (quota ''58'') ''<topics>''),
                 (package_x, Response 200 [] ''<package>'')]"

definition net_moved :: "(string \<times> http_outcome) list" where
  "net_moved = [(repo_x, Response 301 (quota ''59'') ''<moved permanently>''),
                (topics_x, Response 301 (quota ''58'') ''<moved permanently>''),
                (package_x, Response 200 [] ''<package>'')]"

text \<open>What the two copies answer when everything is in order, and what the second
  answers to a 403.\<close>

definition happy_result :: audit_result where
  "happy_result =
     \<lparr>passed = True, issues = [],
      metadata = Some
        \<lparr>github = VObj
           [(''name'', VStr ''plugin-x''), (''owner'', VStr ''acme''),
            (''fullName'', VStr ''acme/plugin-x''), (''stars'', VNum ''7''),
            (''description'', VStr ''A plugin for things''),
            (''topics'', VArr [VStr ''maiar'']),
            (''lastUpdated'', VStr ''2025-06-01T00:00:00Z''),
            (''isPublic'', VBool True),
            (''url'', VStr ''https://github.com/acme/plugin-x'')],
         npm = VObj
           [(''name'', VStr ''plugin-x''), (''version'', VStr ''1.0.0''),
            (''lastPublished'', VStr ''2025-06-02T00:00:00Z''),
            (''author'', VObj [(''name'', VStr ''Jane Doe''), (''email'', VNull),
                               (''url'', VNull)]),
            (''maintainers'', VArr [VObj [(''name'', VStr ''jane'')]]),
            (''url'', VStr ''https://www.npmjs.com/package/plugin-x'')]\<rparr>\<rparr>"

definition refused_result :: audit_result where
  "refused_result =
     \<lparr>passed = False, issues = [''GitHub repository is not public''], metadata = None\<rparr>"

definition happy_result_audit_js :: audit_result where
  "happy_result_audit_js =
     \<lparr>passed = True, issues = [],
      metadata = Some
        \<lparr>github = VObj
           [(''name'', VStr ''plugin-x''), (''owner'', VStr ''acme''),
            (''fullName'', VStr ''acme/plugin-x''), (''stars'', VNum ''7''),
            (''description'', VStr ''A plugin for things''),
            (''topics'', VArr [VStr ''maiar'']),
            (''lastUpdated'', VStr ''2025-06-01T00:00:00Z'')],
         npm = VObj
           [(''name'', VStr ''plugin-x''), (''version'', VStr ''1.0.0''),
            (''lastPublished'', VStr ''2025-06-02T00:00:00Z''),
            (''author'', VStr ''Jane Doe''),
            (''maintainers'', VArr [VObj [(''name'', VStr ''jane'')]])]\<rparr>\<rparr>"

section \<open>Basic facts about the steps\<close>

lemmas js_defs = get_prop_def cannot_read_def not_a_function_def TypeError_def quote_def
  trim_def is_space_def

lemmas request_defs = makeRequest_def request_headers_def makeRequest_audit_js_def
  request_headers_audit_js_def token_applies_def spread_def

lemmas world_defs = world_def serve_def parse_documents_def quota_def repo_x_def topics_x_def
  package_x_def auditor0_def submission_x_def repository_document_def topics_document_def
  package_document_def moved_document_def topics_accept_def

lemmas url_defs = repo_url_def topics_url_def npm_url_def owner_slash_repo_def

lemmas audit_defs = auditPlugin_def audit_try_def fields_missing_def initial_state_def
  fetch_repository_def await_makeRequest_def check_repository_def description_too_short_def
  check_topics_def has_maiar_def check_npm_def cross_reference_def normalizeRepositoryUrl_def
  final_return_def github_metadata_def npm_metadata_def normalize_author_def push_def
  repo_catch_def topics_catch_def npm_catch_def return_failed_def

lemmas audit_js_defs = auditPlugin_audit_js_def audit_try_audit_js_def
  await_makeRequest_audit_js_def check_repository_audit_js_def check_topics_audit_js_def
  check_npm_audit_js_def repo_catch_audit_js_def final_return_audit_js_def
  github_metadata_audit_js_def npm_metadata_audit_js_def

lemmas issue_defs = missing_fields_issue_def not_public_issue_def description_issue_def
  topic_issue_def npm_public_issue_def url_mismatch_issue_def

lemma push_fields [simp]:
  "submission (push i st) = submission st"
  "issues_acc (push i st) = issues_acc st @ [i]"
  "repoData (push i st) = repoData st"
  "npmData (push i st) = npmData st"
  "requests (push i st) = requests st"
  by (simp_all add: push_def)

lemma catch_pushes [simp]:
  "issues_acc (repo_catch error st) \<noteq> []"
  "issues_acc (repo_catch_audit_js error st) \<noteq> []"
  "issues_acc (npm_catch error st) \<noteq> []"
  "issues_acc (topics_catch error st) \<noteq> []"
  by (simp_all add: repo_catch_def repo_catch_audit_js_def npm_catch_def topics_catch_def)

lemma catch_frame [simp]:
  "submission (repo_catch error st) = submission st"
  "submission (repo_catch_audit_js error st) = submission st"
  "submission (npm_catch error st) = submission st"
  "submission (topics_catch error st) = submission st"
  by (simp_all add: repo_catch_def repo_catch_audit_js_def npm_catch_def topics_catch_def)

lemma final_of_return [simp]:
  "final (final_return st) = st"
  "final (final_return_audit_js st) = st"
  by (simp_all add: final_return_def final_return_audit_js_def)

lemma return_failed_eq [simp]:
  "return_failed st = Returned r st' \<longleftrightarrow>
     r = \<lparr>passed = False, issues = issues_acc st, metadata = None\<rparr> \<and> st' = st"
  "state_of (return_failed st) = st"
  by (auto simp: return_failed_def)

subsection \<open>Where a run can return early\<close>

lemma check_repository_not_Returned: "check_repository e this st \<noteq> Returned r st'"
  by (simp add: check_repository_def Let_def split: option.splits sum.splits)

lemma check_repository_audit_js_not_Returned:
  "check_repository_audit_js st repo \<noteq> Returned r st'"
  by (simp add: check_repository_audit_js_def Let_def split: option.splits sum.splits)

lemma audit_try_Returned:
  "audit_try e this st = Returned r st' \<Longrightarrow> \<not> passed r \<and> issues r \<noteq> []"
  by (auto simp: audit_try_def check_repository_not_Returned
      split: sum.splits bool.splits flow.splits)

lemma check_topics_audit_js_Returned:
  "check_topics_audit_js e this st = Returned r st' \<Longrightarrow> \<not> passed r \<and> issues r \<noteq> []"
  by (auto simp: check_topics_audit_js_def split: prod.splits sum.splits)

lemma check_npm_audit_js_Returned:
  "check_npm_audit_js e this st = Returned r st' \<Longrightarrow> \<not> passed r \<and> issues r \<noteq> []"
  by (auto simp: check_npm_audit_js_def Let_def split: prod.splits sum.splits)

lemma audit_try_audit_js_Returned:
  "audit_try_audit_js e this st = Returned r st' \<Longrightarrow> \<not> passed r \<and> issues r \<noteq> []"
  by (auto simp: audit_try_audit_js_def check_repository_audit_js_not_Returned
      dest: check_topics_audit_js_Returned check_npm_audit_js_Returned
      split: sum.splits bool.splits flow.splits prod.splits)

lemma final_return_passed:
  "outcome (final_return st) = Resolved r \<Longrightarrow> passed r = (issues r = [])"
  by (auto simp: final_return_def split: sum.splits)

lemma final_return_audit_js_passed:
  "outcome (final_return_audit_js st) = Resolved r \<Longrightarrow> passed r = (issues r = [])"
  by (auto simp: final_return_audit_js_def split: sum.splits)

subsection \<open>The submission is only read\<close>

lemma fetch_repository_frame [simp]:
  "submission (fetch_repository e this st) = submission st"
  by (simp add: fetch_repository_def await_makeRequest_def split: sum.splits)

lemma check_topics_frame [simp]:
  "submission (check_topics e this st) = submission st"
  by (simp add: check_topics_def await_makeRequest_def split: sum.splits)

lemma check_repository_frame [simp]:
  "submission (state_of (check_repository e this st)) = submission st"
  by (simp add: check_repository_def Let_def split: option.splits sum.splits)

lemma cross_reference_frame [simp]:
  "submission (cross_reference st) = submission st"
  by (simp add: cross_reference_def split: sum.splits)

lemma check_npm_frame [simp]:
  "submission (check_npm e this st) = submission st"
  by (simp add: check_npm_def await_makeRequest_def Let_def split: sum.splits)

lemma audit_try_frame:
  "submission (state_of (audit_try e this st)) = submission st"
proof (cases "check_repository e this (fetch_repository e this st)")
  case (Continue st2)
  from check_repository_frame [of e this "fetch_repository e this st"] Continue
  have "submission st2 = submission st" by simp
  with Continue show ?thesis
    by (simp add: audit_try_def split: sum.splits bool.splits)
next
  case (Returned r st2)
  then show ?thesis by (simp add: check_repository_not_Returned)
next
  case (Thrown error st2)
  from check_repository_frame [of e this "fetch_repository e this st"] Thrown
  have "submission st2 = submission st" by simp
  with Thrown show ?thesis
    by (simp add: audit_try_def split: sum.splits bool.splits)
qed

lemma check_repository_audit_js_frame [simp]:
  "submission (state_of (check_repository_audit_js st repo)) = submission st"
  by (simp add: check_repository_audit_js_def Let_def split: sum.splits)

lemma check_topics_audit_js_frame [simp]:
  "submission (state_of (check_topics_audit_js e this st)) = submission st"
  by (simp add: check_topics_audit_js_def await_makeRequest_audit_js_def split: sum.splits)

lemma check_npm_audit_js_frame [simp]:
  "submission (state_of (check_npm_audit_js e this st)) = submission st"
  by (simp add: check_npm_audit_js_def await_makeRequest_audit_js_def Let_def split: sum.splits)

lemma audit_try_audit_js_frame:
  "submission (state_of (audit_try_audit_js e this st)) = submission st"
proof (cases "fields_missing (submission st)")
  case (Inl error)
  then show ?thesis by (simp add: audit_try_audit_js_def)
next
  case (Inr missing)
  show ?thesis
  proof (cases missing)
    case True
    with Inr show ?thesis by (simp add: audit_try_audit_js_def)
  next
    case False
    show ?thesis
    proof (cases "makeRequest_audit_js e this (repo_url (submission st)) []")
      case (Inl error)
      with Inr False show ?thesis
        by (simp add: audit_try_audit_js_def await_makeRequest_audit_js_def)
    next
      case repo: (Inr repoResponse)
      define st1 where "st1 = st\<lparr>requests := requests st @
          [(repo_url (submission st), request_headers_audit_js this (repo_url (submission st)) [])],
          repoData := Some repoResponse\<rparr>"
      have sub1: "submission st1 = submission st" by (simp add: st1_def)
      have unfolded: "audit_try_audit_js e this st =
          (case check_repository_audit_js st1 repoResponse of
             Continue st2 \<Rightarrow>
               (case check_topics_audit_js e this st2 of
                  Continue st3 \<Rightarrow> check_npm_audit_js e this st3
                | ended \<Rightarrow> ended)
           | ended \<Rightarrow> ended)"
        using Inr False repo
        by (simp add: audit_try_audit_js_def await_makeRequest_audit_js_def st1_def)
      show ?thesis
      proof (cases "check_repository_audit_js st1 repoResponse")
        case c1: (Continue st2)
        from check_repository_audit_js_frame [of st1 repoResponse] c1 sub1
        have sub2: "submission st2 = submission st" by simp
        show ?thesis
        proof (cases "check_topics_audit_js e this st2")
          case c2: (Continue st3)
          from check_topics_audit_js_frame [of e this st2] c2 sub2
          have "submission st3 = submission st" by simp
          with check_npm_audit_js_frame [of e this st3] unfolded c1 c2 show ?thesis by simp
        next
          case (Returned r st3)
          with check_topics_audit_js_frame [of e this st2] sub2 unfolded c1 show ?thesis by simp
        next
          case (Thrown error st3)
          with check_topics_audit_js_frame [of e this st2] sub2 unfolded c1 show ?thesis by simp
        qed
      next
        case (Returned r st2)
        then show ?thesis by (simp add: check_repository_audit_js_not_Returned)
      next
        case (Thrown error st2)
        with check_repository_audit_js_frame [of st1 repoResponse] sub1 unfolded
        show ?thesis by simp
      qed
    qed
  qed
qed

subsection \<open>Two concrete runs\<close>

lemma happy_run:
  "outcome (auditPlugin (world net_happy) auditor0 submission_x) = Resolved happy_result"
  by (simp add: audit_defs js_defs request_defs world_defs url_defs net_happy_def
      happy_result_def)

lemma refused_run_audit_js:
  "outcome (auditPlugin_audit_js (world (net_status 403)) auditor0 submission_x)
     = Resolved refused_result"
  by (simp add: audit_defs audit_js_defs js_defs request_defs world_defs url_defs
      net_status_def refused_result_def)

section \<open>The claims\<close>

text \<open>
  C1. For every submission and every behaviour of the transport, a result that
  \<^verbatim>\<open>auditPlugin\<close> returns has \<^verbatim>\<open>passed\<close> true exactly when its list of issues is
  empty. This holds for both copies of the function and on every path that
  returns: the early returns carry \<^verbatim>\<open>passed: false\<close> together with a list to which
  an issue has just been pushed, and the final return computes \<^verbatim>\<open>passed\<close> from the
  list.
\<close>

theorem passed_iff_no_issues:
  "(outcome (auditPlugin e this sub) = Resolved r \<longrightarrow> passed r = (issues r = []))
   \<and> (outcome (auditPlugin_audit_js e this sub) = Resolved r' \<longrightarrow> passed r' = (issues r' = []))"
proof (intro conjI impI)
  assume "outcome (auditPlugin e this sub) = Resolved r"
  then show "passed r = (issues r = [])"
    by (auto simp: auditPlugin_def dest: audit_try_Returned final_return_passed
        split: flow.splits)
next
  assume "outcome (auditPlugin_audit_js e this sub) = Resolved r'"
  then show "passed r' = (issues r' = [])"
    by (auto simp: auditPlugin_audit_js_def
        dest: audit_try_audit_js_Returned final_return_audit_js_passed split: flow.splits)
qed

theorem passed_iff_no_issues_witness:
  "outcome (auditPlugin (world net_happy) auditor0 submission_x) = Resolved happy_result
   \<and> passed happy_result = (issues happy_result = [])
   \<and> outcome (auditPlugin_audit_js (world (net_status 403)) auditor0 submission_x)
        = Resolved refused_result
   \<and> passed refused_result = (issues refused_result = [])"
proof -
  have h: "outcome (auditPlugin (world net_happy) auditor0 submission_x) = Resolved happy_result"
    by (rule happy_run)
  have h': "outcome (auditPlugin_audit_js (world (net_status 403)) auditor0 submission_x)
              = Resolved refused_result"
    by (rule refused_run_audit_js)
  from passed_iff_no_issues [of "world net_happy" auditor0 submission_x happy_result]
    passed_iff_no_issues [of "world (net_status 403)" auditor0 submission_x _ refused_result]
    h h'
  show ?thesis by simp
qed

text \<open>
  C10. \<^verbatim>\<open>auditPlugin\<close> never writes to its submission argument: on every path, in
  both copies, the submission held at the end of the call is the object that was
  passed in, with every property (\<^verbatim>\<open>repo\<close>, \<^verbatim>\<open>owner\<close>, \<^verbatim>\<open>npm_package_name\<close> and any
  other) as before.
\<close>

theorem submission_unchanged:
  "submission (final (auditPlugin e this sub)) = sub
   \<and> submission (final (auditPlugin_audit_js e this sub)) = sub"
proof
  from audit_try_frame [of e this "initial_state sub"]
  show "submission (final (auditPlugin e this sub)) = sub"
    by (cases "audit_try e this (initial_state sub)")
       (simp_all add: auditPlugin_def initial_state_def)
next
  from audit_try_audit_js_frame [of e this "initial_state sub"]
  show "submission (final (auditPlugin_audit_js e this sub)) = sub"
    by (cases "audit_try_audit_js e this (initial_state sub)")
       (simp_all add: auditPlugin_audit_js_def initial_state_def)
qed

theorem submission_unchanged_witness:
  "submission (final (auditPlugin (world net_happy) auditor0 submission_x)) = submission_x
   \<and> prop_of (submission (final (auditPlugin (world net_happy) auditor0 submission_x))) ''owner''
        = VStr ''acme''
   \<and> submission (final (auditPlugin_audit_js (world (net_status 403)) auditor0 submission_x))
        = submission_x"
  using submission_unchanged [of "world net_happy" auditor0 submission_x]
    submission_unchanged [of "world (net_status 403)" auditor0 submission_x]
  by (simp add: submission_x_def)



section \<open>When the repository fetch fails\<close>

lemma fields_missing_iff: "fields_missing sub = Inr False \<longleftrightarrow> fields_present sub"
  by (auto simp: fields_missing_def fields_present_def get_prop_def)

lemma makeRequest_error_status:
  assumes "makeRequest e this url hs = Inl err" and "err_status err \<noteq> Some 429"
  shows "err_response_status err = Some 404 \<longleftrightarrow> err_status err = Some 404"
    and "err_response_status err = Some 403 \<longleftrightarrow> err_status err = Some 403"
  using assms
  by (auto simp: makeRequest_def split: http_outcome.splits if_splits sum.splits)

lemma makeRequest_audit_js_error_status:
  assumes "makeRequest_audit_js e this url hs = Inl err"
  shows "err_response_status err = err_status err"
  using assms
  by (auto simp: makeRequest_audit_js_def split: http_outcome.splits if_splits sum.splits)

lemma check_npm_issues:
  "\<exists>rest. issues_acc (check_npm e this st) = issues_acc st @ rest
          \<and> (\<forall>i\<in>set rest. npm_stage_issue i)"
  by (auto simp: check_npm_def await_makeRequest_def cross_reference_def npm_catch_def
      npm_stage_issue_def Let_def split: sum.splits)

lemma check_npm_fields [simp]:
  "repoData (check_npm e this st) = repoData st"
  "requests (check_npm e this st) =
     requests st @ [(npm_url e (submission st),
                     request_headers this (npm_url e (submission st)) [])]"
  by (auto simp: check_npm_def await_makeRequest_def cross_reference_def npm_catch_def
      Let_def split: sum.splits)


lemma failed_repo_run:
  assumes "fields_present sub" and "makeRequest e this (repo_url sub) [] = Inl err"
  shows "auditPlugin e this sub =
           final_return (check_npm e this (repo_catch err
             \<lparr>submission = sub, issues_acc = [], repoData = None, npmData = VNull,
              requests = [(repo_url sub, request_headers this (repo_url sub) [])]\<rparr>))"
proof -
  from assms(1) have "fields_missing sub = Inr False" by (simp add: fields_missing_iff)
  moreover have "repoData (repo_catch err st) = repoData st" for st
    by (simp add: repo_catch_def)
  ultimately show ?thesis using assms(2)
    by (simp add: auditPlugin_def audit_try_def initial_state_def fetch_repository_def
        await_makeRequest_def check_repository_def)
qed

lemma final_return_without_repo:
  assumes "repoData st = None"
  shows "outcome (final_return st) = Resolved
           \<lparr>passed = (issues_acc st = []), issues = issues_acc st,
            metadata = Some \<lparr>github = VNull, npm = npm_metadata st\<rparr>\<rparr>"
  using assms by (simp add: final_return_def github_metadata_def)

lemma failed_repo_run_audit_js:
  assumes "fields_present sub" and "makeRequest_audit_js e this (repo_url sub) [] = Inl err"
  shows "auditPlugin_audit_js e this sub =
           \<lparr>outcome = Resolved \<lparr>passed = False,
                issues = issues_acc (repo_catch_audit_js err (initial_state sub)),
                metadata = None\<rparr>,
            final = repo_catch_audit_js err
              \<lparr>submission = sub, issues_acc = [], repoData = None, npmData = VNull,
               requests = [(repo_url sub, request_headers_audit_js this (repo_url sub) [])]\<rparr>\<rparr>"
proof -
  from assms(1) have "fields_missing sub = Inr False" by (simp add: fields_missing_iff)
  then show ?thesis using assms(2)
    by (simp add: auditPlugin_audit_js_def audit_try_audit_js_def initial_state_def
        await_makeRequest_audit_js_def return_failed_def repo_catch_audit_js_def)
qed


subsection \<open>Concrete requests\<close>

lemma fields_present_x [simp]: "fields_present submission_x"
  by (simp add: fields_present_def submission_x_def)

lemma urls_x [simp]:
  "repo_url submission_x = repo_x"
  "topics_url submission_x = topics_x"
  "npm_url (world table) submission_x = package_x"
  by (simp_all add: url_defs world_defs)

lemma status_404_requests:
  "makeRequest (world (net_status 404)) auditor0 repo_x []
     = Inl (JsError (Some 404) ''HTTP 404: denied'' (Some 404))"
  "makeRequest (world (net_status 404)) auditor0 package_x []
     = Inr \<lparr>data = package_document, status = 200, headers = Some []\<rparr>"
  "makeRequest_audit_js (world (net_status 404)) auditor0 repo_x []
     = Inl (JsError (Some 404) ''denied'' (Some 404))"
  "makeRequest_audit_js (world (net_status 404)) auditor0 package_x []
     = Inr \<lparr>data = package_document, status = 200, headers = None\<rparr>"
  by (simp_all add: request_defs net_status_def world_def serve_def parse_documents_def
      quota_def repo_x_def package_x_def auditor0_def show_nat.simps digit_def)

lemma status_403_requests:
  "makeRequest (world (net_status 403)) auditor0 repo_x []
     = Inl (JsError (Some 403) ''HTTP 403: denied'' (Some 403))"
  "makeRequest (world (net_status 403)) auditor0 package_x []
     = Inr \<lparr>data = package_document, status = 200, headers = Some []\<rparr>"
  "makeRequest_audit_js (world (net_status 403)) auditor0 repo_x []
     = Inl (JsError (Some 403) ''denied'' (Some 403))"
  by (simp_all add: request_defs net_status_def world_def serve_def parse_documents_def
      quota_def repo_x_def package_x_def auditor0_def show_nat.simps digit_def)



text \<open>
  C4, as the code has it. For every failure of the repository fetch that is not
  the rate-limit case (status 429), the copy of \<^verbatim>\<open>src/unnamed/part_000\<close> appends
  exactly one issue for it, chosen by the status: 404 gives "GitHub repository
  not found", 403 gives "GitHub API access forbidden: " followed by the message,
  anything else gives "Error accessing GitHub repository: " followed by the
  message; whatever follows in the list comes from the package stage. The copy
  of \<^verbatim>\<open>src/audit.js\<close> answers 404 and the other failures in the same words, but a
  403 with "GitHub repository is not public", and that issue is the whole list.
\<close>

theorem repository_failure_issue:
  assumes "fields_present sub"
  shows "(\<forall>err. makeRequest e this (repo_url sub) [] = Inl err \<and> err_status err \<noteq> Some 429 \<longrightarrow>
            (\<exists>r rest. outcome (auditPlugin e this sub) = Resolved r
               \<and> issues r =
                   (if err_status err = Some 404 then ''GitHub repository not found''
                    else if err_status err = Some 403
                    then ''GitHub API access forbidden: '' @ err_message err
                    else ''Error accessing GitHub repository: '' @ err_message err) # rest
               \<and> (\<forall>i\<in>set rest. npm_stage_issue i)))
       \<and> (\<forall>err. makeRequest_audit_js e this (repo_url sub) [] = Inl err \<longrightarrow>
            outcome (auditPlugin_audit_js e this sub) = Resolved
              \<lparr>passed = False,
               issues = [if err_status err = Some 404 then ''GitHub repository not found''
                         else if err_status err = Some 403 then ''GitHub repository is not public''
                         else ''Error accessing GitHub repository: '' @ err_message err],
               metadata = None\<rparr>)"
proof (intro conjI allI impI)
  fix err
  assume failed: "makeRequest e this (repo_url sub) [] = Inl err \<and> err_status err \<noteq> Some 429"
  let ?issue = "if err_status err = Some 404 then ''GitHub repository not found''
                else if err_status err = Some 403
                then ''GitHub API access forbidden: '' @ err_message err
                else ''Error accessing GitHub repository: '' @ err_message err"
  define st1 where "st1 = repo_catch err
     \<lparr>submission = sub, issues_acc = [], repoData = None, npmData = VNull,
      requests = [(repo_url sub, request_headers this (repo_url sub) [])]\<rparr>"
  from failed makeRequest_error_status [of e this "repo_url sub" "[]" err]
  have st1: "issues_acc st1 = [?issue]" "repoData st1 = None"
    by (simp_all add: st1_def repo_catch_def)
  from check_npm_issues [of e this st1] st1(1)
  obtain rest where rest: "issues_acc (check_npm e this st1) = ?issue # rest"
      "\<forall>i\<in>set rest. npm_stage_issue i"
    by auto
  from failed have "auditPlugin e this sub = final_return (check_npm e this st1)"
    using failed_repo_run [OF assms, of e this err] by (simp add: st1_def)
  then have "outcome (auditPlugin e this sub) = Resolved
      \<lparr>passed = False, issues = ?issue # rest,
       metadata = Some \<lparr>github = VNull, npm = npm_metadata (check_npm e this st1)\<rparr>\<rparr>"
    by (simp add: final_return_without_repo st1(2) rest(1))
  with rest(2) show "\<exists>r rest. outcome (auditPlugin e this sub) = Resolved r
      \<and> issues r = ?issue # rest \<and> (\<forall>i\<in>set rest. npm_stage_issue i)"
    by (intro exI [of _ "\<lparr>passed = False, issues = ?issue # rest,
       metadata = Some \<lparr>github = VNull, npm = npm_metadata (check_npm e this st1)\<rparr>\<rparr>"]
         exI [of _ rest]) simp
next
  fix err
  assume failed: "makeRequest_audit_js e this (repo_url sub) [] = Inl err"
  from failed_repo_run_audit_js [OF assms failed] makeRequest_audit_js_error_status [OF failed]
  show "outcome (auditPlugin_audit_js e this sub) = Resolved
          \<lparr>passed = False,
           issues = [if err_status err = Some 404 then ''GitHub repository not found''
                     else if err_status err = Some 403 then ''GitHub repository is not public''
                     else ''Error accessing GitHub repository: '' @ err_message err],
           metadata = None\<rparr>"
    by (simp add: repo_catch_audit_js_def initial_state_def)
qed

theorem repository_failure_issue_witness:
  "fields_present submission_x
   \<and> makeRequest (world (net_status 403)) auditor0 (repo_url submission_x) []
       = Inl (JsError (Some 403) ''HTTP 403: denied'' (Some 403))
   \<and> makeRequest_audit_js (world (net_status 404)) auditor0 (repo_url submission_x) []
       = Inl (JsError (Some 404) ''denied'' (Some 404))
   \<and> (\<exists>r rest. outcome (auditPlugin (world (net_status 403)) auditor0 submission_x) = Resolved r
         \<and> issues r = ''GitHub API access forbidden: HTTP 403: denied'' # rest
         \<and> (\<forall>i\<in>set rest. npm_stage_issue i))
   \<and> outcome (auditPlugin_audit_js (world (net_status 404)) auditor0 submission_x) = Resolved
        \<lparr>passed = False, issues = [''GitHub repository not found''], metadata = None\<rparr>"
proof -
  note a = repository_failure_issue [OF fields_present_x, of "world (net_status 403)" auditor0]
  note b = repository_failure_issue [OF fields_present_x, of "world (net_status 404)" auditor0]
  from a status_403_requests(1)
  have "\<exists>r rest. outcome (auditPlugin (world (net_status 403)) auditor0 submission_x) = Resolved r
         \<and> issues r = ''GitHub API access forbidden: HTTP 403: denied'' # rest
         \<and> (\<forall>i\<in>set rest. npm_stage_issue i)"
    by (simp only: urls_x) force
  moreover from b status_404_requests(3)
  have "outcome (auditPlugin_audit_js (world (net_status 404)) auditor0 submission_x) = Resolved
        \<lparr>passed = False, issues = [''GitHub repository not found''], metadata = None\<rparr>"
    by (simp only: urls_x) force
  ultimately show ?thesis
    using status_403_requests(1) status_404_requests(3) by simp
qed

theorem forbidden_is_not_public_audit_js:
  "fields_present submission_x
   \<and> makeRequest_audit_js (world (net_status 403)) auditor0 (repo_url submission_x) []
       = Inl (JsError (Some 403) ''denied'' (Some 403))
   \<and> resolved_issues (auditPlugin_audit_js (world (net_status 403)) auditor0 submission_x)
       = Some [''GitHub repository is not public'']
   \<and> ''GitHub API access forbidden: denied''
       \<notin> set (reported (auditPlugin_audit_js (world (net_status 403)) auditor0 submission_x))"
  using failed_repo_run_audit_js [OF fields_present_x, of "world (net_status 403)" auditor0]
  by (simp add: status_403_requests repo_catch_audit_js_def initial_state_def resolved_issues_def
      reported_def push_def)

section \<open>Rate limiting\<close>

lemma str_includes_iff: "str_includes s sub \<longleftrightarrow> (\<exists>p q. s = p @ sub @ q)"
proof (induction s)
  case Nil
  then show ?case by auto
next
  case (Cons c s)
  show ?case
  proof
    assume "str_includes (c # s) sub"
    then consider "prefix sub (c # s)" | "str_includes s sub" by auto
    then show "\<exists>p q. c # s = p @ sub @ q"
    proof cases
      case 1
      then obtain q where "c # s = sub @ q" by (auto simp: prefix_def)
      then have "c # s = [] @ sub @ q" by simp
      then show ?thesis by blast
    next
      case 2
      with Cons.IH obtain p q where "s = p @ sub @ q" by blast
      then have "c # s = (c # p) @ sub @ q" by simp
      then show ?thesis by blast
    qed
  next
    assume "\<exists>p q. c # s = p @ sub @ q"
    then obtain p q where pq: "c # s = p @ sub @ q" by blast
    show "str_includes (c # s) sub"
    proof (cases p)
      case Nil
      with pq have "prefix sub (c # s)" by (simp add: prefix_def)
      then show ?thesis by simp
    next
      case (Cons c' p')
      with pq have "s = p' @ sub @ q" by simp
      with Cons.IH have "str_includes s sub" by blast
      then show ?thesis by simp
    qed
  qed
qed

lemma github_urls [simp]:
  "str_includes (repo_url sub) ''api.github.com''"
  "str_includes (topics_url sub) ''api.github.com''"
proof -
  have "repo_url sub = ''https://'' @ ''api.github.com'' @ (''/repos/'' @ owner_slash_repo sub)"
    by (simp add: repo_url_def)
  then show "str_includes (repo_url sub) ''api.github.com''"
    unfolding str_includes_iff by blast
  have "topics_url sub
      = ''https://'' @ ''api.github.com'' @ (''/repos/'' @ owner_slash_repo sub @ ''/topics'')"
    by (simp add: topics_url_def)
  then show "str_includes (topics_url sub) ''api.github.com''"
    unfolding str_includes_iff by blast
qed

lemma makeRequest_limited:
  assumes "str_includes url ''api.github.com''"
    and "https_get e url (request_headers this url hs) = Response code res_headers body"
    and "map_of res_headers ''x-ratelimit-remaining'' = Some ''0''"
  shows "makeRequest e this url hs
           = Inl (JsError (Some 429) (rate_limit_message e res_headers) (Some 429))"
  using assms by (simp add: makeRequest_def rate_limit_message_def)

lemma rate_limit_message_hd: "hd (rate_limit_message e res_headers) = CHR ''G''"
  by (simp add: rate_limit_message_def)

lemma npm_stage_issue_hd: "npm_stage_issue i \<Longrightarrow> hd i = CHR ''n'' \<or> hd i = CHR ''E''"
  by (auto simp: npm_stage_issue_def prefix_def issue_defs)

lemma repository_issues_hd: "i \<in> set (repository_issues payload) \<Longrightarrow> hd i = CHR ''R''"
  by (auto simp: repository_issues_def issue_defs split: if_splits)

section \<open>When the repository fetch succeeds\<close>

lemma description_too_short_eq:
  assumes "checks_apply payload"
  shows "description_too_short (prop_of payload ''description'')
           = Inr (short_description (prop_of payload ''description''))"
  using assms
  by (cases "prop_of payload ''description''")
     (auto simp: checks_apply_def description_too_short_def trim_def)

lemma repo_ok_run:
  assumes "fields_present sub" and "makeRequest e this (repo_url sub) [] = Inr repo"
    and "checks_apply (data repo)"
  shows "auditPlugin e this sub =
           final_return (check_npm e this (check_topics e this
             \<lparr>submission = sub, issues_acc = repository_issues (data repo),
              repoData = Some repo, npmData = VNull,
              requests = [(repo_url sub, request_headers this (repo_url sub) [])]\<rparr>))"
proof -
  from assms(1) have "fields_missing sub = Inr False" by (simp add: fields_missing_iff)
  moreover from assms(3) have "get_prop (data repo) ''private'' = Inr (prop_of (data repo) ''private'')"
    by (simp add: checks_apply_def get_prop_def)
  ultimately show ?thesis
    using assms(2) description_too_short_eq [OF assms(3)]
    by (simp add: auditPlugin_def audit_try_def initial_state_def fetch_repository_def
        await_makeRequest_def check_repository_def repository_issues_def push_def)
qed

lemma check_topics_fields [simp]:
  "repoData (check_topics e this st) = repoData st"
  "npmData (check_topics e this st) = npmData st"
  by (auto simp: check_topics_def await_makeRequest_def topics_catch_def split: sum.splits)

lemma check_topics_failed:
  assumes "makeRequest e this (topics_url (submission st)) topics_accept = Inl err"
  shows "issues_acc (check_topics e this st)
           = issues_acc st @ [''Error checking repository topics: '' @ err_message err]"
  using assms by (simp add: check_topics_def await_makeRequest_def topics_catch_def)

lemma resolved_reported:
  "outcome (auditPlugin e this sub) = Resolved r \<Longrightarrow> issues r = reported (auditPlugin e this sub)"
  "outcome (auditPlugin_audit_js e this sub) = Resolved r'
     \<Longrightarrow> issues r' = reported (auditPlugin_audit_js e this sub)"
proof -
  assume "outcome (auditPlugin e this sub) = Resolved r"
  then show "issues r = reported (auditPlugin e this sub)"
    by (cases "audit_try e this (initial_state sub)")
       (auto simp: auditPlugin_def reported_def final_return_def audit_try_def
          check_repository_not_Returned split: sum.splits bool.splits flow.splits)
next
  have returned: "issues a = issues_acc st'"
    if "audit_try_audit_js e this st = Returned a st'" for st a st'
    using that
    by (auto simp: audit_try_audit_js_def check_repository_audit_js_not_Returned
        check_topics_audit_js_def check_npm_audit_js_def Let_def
        split: sum.splits bool.splits flow.splits prod.splits)
  assume "outcome (auditPlugin_audit_js e this sub) = Resolved r'"
  then show "issues r' = reported (auditPlugin_audit_js e this sub)"
    by (cases "audit_try_audit_js e this (initial_state sub)")
       (auto simp: auditPlugin_audit_js_def reported_def final_return_audit_js_def
          dest: returned split: sum.splits)
qed

text \<open>
  C3, as the code has it. A response to a request whose URL contains
  \<^verbatim>\<open>api.github.com\<close> and whose \<^verbatim>\<open>x-ratelimit-remaining\<close> header is exactly "0" makes
  \<^verbatim>\<open>makeRequest\<close> reject with status 429 and the message "GitHub API rate limit
  exceeded. Resets at " followed by the formatted reset time, whatever the status
  code and the body are and whatever \<^verbatim>\<open>JSON.parse\<close> would make of the body. When
  this is the response to the repository fetch, \<^verbatim>\<open>auditPlugin\<close> reports that message
  verbatim as the one issue of the fetch (anything after it comes from the package
  stage). When it is the response to the topics fetch, the one issue of the fetch
  is "Error checking repository topics: " followed by the message, and the bare
  message is not among the issues.
\<close>

theorem rate_limit_surfacing:
  assumes "map_of res_headers ''x-ratelimit-remaining'' = Some ''0''"
  shows "(str_includes url ''api.github.com''
            \<and> https_get e url (request_headers this url hs) = Response code res_headers body \<longrightarrow>
          makeRequest (e\<lparr>JSON_parse := parse\<rparr>) this url hs
            = Inl (JsError (Some 429) (rate_limit_message e res_headers) (Some 429)))
       \<and> (fields_present sub
            \<and> https_get e (repo_url sub) (request_headers this (repo_url sub) [])
                = Response code res_headers body \<longrightarrow>
          (\<exists>r rest. outcome (auditPlugin e this sub) = Resolved r
             \<and> issues r = rate_limit_message e res_headers # rest
             \<and> (\<forall>i\<in>set rest. npm_stage_issue i)))
       \<and> (fields_present sub \<and> makeRequest e this (repo_url sub) [] = Inr repo
            \<and> checks_apply (data repo)
            \<and> https_get e (topics_url sub) (request_headers this (topics_url sub) topics_accept)
                = Response code res_headers body \<longrightarrow>
          (\<exists>rest. reported (auditPlugin e this sub)
               = repository_issues (data repo)
                 @ [''Error checking repository topics: '' @ rate_limit_message e res_headers]
                 @ rest
             \<and> (\<forall>i\<in>set rest. npm_stage_issue i))
          \<and> rate_limit_message e res_headers \<notin> set (reported (auditPlugin e this sub)))"
proof -
  let ?msg = "rate_limit_message e res_headers"
  let ?topics = "''Error checking repository topics: '' @ ?msg"
  have request: "makeRequest (e\<lparr>JSON_parse := parse\<rparr>) this url hs
          = Inl (JsError (Some 429) ?msg (Some 429))"
    if "str_includes url ''api.github.com''
            \<and> https_get e url (request_headers this url hs) = Response code res_headers body"
    using that assms
      makeRequest_limited [of url "e\<lparr>JSON_parse := parse\<rparr>" this hs code res_headers body]
    by (simp add: rate_limit_message_def)
  have repository: "\<exists>r rest. outcome (auditPlugin e this sub) = Resolved r
      \<and> issues r = ?msg # rest \<and> (\<forall>i\<in>set rest. npm_stage_issue i)"
    if h: "fields_present sub
            \<and> https_get e (repo_url sub) (request_headers this (repo_url sub) [])
                = Response code res_headers body"
  proof -
  from h assms have failed: "makeRequest e this (repo_url sub) [] = Inl (JsError (Some 429) ?msg (Some 429))"
    by (simp add: makeRequest_limited)
  define st1 where "st1 = repo_catch (JsError (Some 429) ?msg (Some 429))
     \<lparr>submission = sub, issues_acc = [], repoData = None, npmData = VNull,
      requests = [(repo_url sub, request_headers this (repo_url sub) [])]\<rparr>"
  have st1: "issues_acc st1 = [?msg]" "repoData st1 = None"
    by (simp_all add: st1_def repo_catch_def)
  from check_npm_issues [of e this st1] st1(1)
  obtain rest where rest: "issues_acc (check_npm e this st1) = ?msg # rest"
      "\<forall>i\<in>set rest. npm_stage_issue i"
    by auto
  from h failed have "auditPlugin e this sub = final_return (check_npm e this st1)"
    using failed_repo_run [of sub e this] by (simp add: st1_def)
  then have "outcome (auditPlugin e this sub) = Resolved
      \<lparr>passed = False, issues = ?msg # rest,
       metadata = Some \<lparr>github = VNull, npm = npm_metadata (check_npm e this st1)\<rparr>\<rparr>"
    by (simp add: final_return_without_repo st1(2) rest(1))
  with rest(2) show ?thesis
    by (intro exI [of _ "\<lparr>passed = False, issues = ?msg # rest,
       metadata = Some \<lparr>github = VNull, npm = npm_metadata (check_npm e this st1)\<rparr>\<rparr>"]
         exI [of _ rest]) simp
  qed
  have topics: "(\<exists>rest. reported (auditPlugin e this sub)
               = repository_issues (data repo) @ [?topics] @ rest
             \<and> (\<forall>i\<in>set rest. npm_stage_issue i))
          \<and> ?msg \<notin> set (reported (auditPlugin e this sub))"
    if h: "fields_present sub \<and> makeRequest e this (repo_url sub) [] = Inr repo
            \<and> checks_apply (data repo)
            \<and> https_get e (topics_url sub) (request_headers this (topics_url sub) topics_accept)
                = Response code res_headers body"
  proof -
  define st1 where "st1 = \<lparr>submission = sub, issues_acc = repository_issues (data repo),
      repoData = Some repo, npmData = VNull,
      requests = [(repo_url sub, request_headers this (repo_url sub) [])]\<rparr>"
  from h have run: "auditPlugin e this sub = final_return (check_npm e this (check_topics e this st1))"
    by (simp add: repo_ok_run st1_def)
  from h assms have "makeRequest e this (topics_url (submission st1)) topics_accept
      = Inl (JsError (Some 429) ?msg (Some 429))"
    by (simp add: makeRequest_limited st1_def)
  from check_topics_failed [OF this]
  have topics: "issues_acc (check_topics e this st1) = repository_issues (data repo) @ [?topics]"
    by (simp add: st1_def)
  from check_npm_issues [of e this "check_topics e this st1"] topics
  obtain rest where rest: "issues_acc (check_npm e this (check_topics e this st1))
        = repository_issues (data repo) @ [?topics] @ rest"
      "\<forall>i\<in>set rest. npm_stage_issue i"
    by auto
  then have reported: "reported (auditPlugin e this sub)
      = repository_issues (data repo) @ [?topics] @ rest"
    by (simp add: reported_def run)
  with rest(2) have first: "\<exists>rest. reported (auditPlugin e this sub)
               = repository_issues (data repo) @ [?topics] @ rest
             \<and> (\<forall>i\<in>set rest. npm_stage_issue i)"
    by blast
  have "?msg \<notin> set (repository_issues (data repo))"
    using repository_issues_hd [of ?msg "data repo"] by (auto simp: rate_limit_message_hd)
  moreover have "?msg \<notin> set rest"
    using rest(2) npm_stage_issue_hd [of ?msg] by (auto simp: rate_limit_message_hd)
  moreover have "?msg \<noteq> ?topics" by simp
  ultimately have "?msg \<notin> set (reported (auditPlugin e this sub))"
    by (simp add: reported)
  with first show ?thesis by blast
  qed
  from request repository topics show ?thesis by blast
qed

lemma limited_requests:
  "map_of (quota ''0'') ''x-ratelimit-remaining'' = Some ''0''"
  "rate_limit_message (world table) (quota ''0'')
     = ''GitHub API rate limit exceeded. Resets at 1/1/2026, 12:00:00 AM''"
  "https_get (world net_repo_limited) repo_x (request_headers auditor0 repo_x [])
     = Response 200 (quota ''0'') ''<repository>''"
  "https_get (world net_topics_limited) topics_x (request_headers auditor0 topics_x topics_accept)
     = Response 200 (quota ''0'') ''<topics>''"
  "makeRequest (world net_topics_limited) auditor0 repo_x []
     = Inr \<lparr>data = repository_document ''A plugin for things'', status = 200,
            headers = Some (quota ''1'')\<rparr>"
  "checks_apply (repository_document ''A plugin for things'')"
  "repository_issues (repository_document ''A plugin for things'') = []"
  by (simp_all add: request_defs net_repo_limited_def net_topics_limited_def world_def serve_def
      parse_documents_def quota_def repo_x_def topics_x_def package_x_def auditor0_def
      rate_limit_message_def checks_apply_def repository_document_def repository_issues_def
      trim_def is_space_def)

theorem rate_limit_surfacing_witness:
  "map_of (quota ''0'') ''x-ratelimit-remaining'' = Some ''0''
   \<and> str_includes (repo_url submission_x) ''api.github.com''
   \<and> https_get (world net_repo_limited) (repo_url submission_x)
         (request_headers auditor0 (repo_url submission_x) [])
       = Response 200 (quota ''0'') ''<repository>''
   \<and> makeRequest (world net_repo_limited) auditor0 (repo_url submission_x) []
       = Inl (JsError (Some 429)
               ''GitHub API rate limit exceeded. Resets at 1/1/2026, 12:00:00 AM'' (Some 429))
   \<and> (\<exists>r rest. outcome (auditPlugin (world net_repo_limited) auditor0 submission_x) = Resolved r
         \<and> issues r = ''GitHub API rate limit exceeded. Resets at 1/1/2026, 12:00:00 AM'' # rest
         \<and> (\<forall>i\<in>set rest. npm_stage_issue i))
   \<and> fields_present submission_x
   \<and> checks_apply (repository_document ''A plugin for things'')
   \<and> https_get (world net_topics_limited) (topics_url submission_x)
         (request_headers auditor0 (topics_url submission_x) topics_accept)
       = Response 200 (quota ''0'') ''<topics>''
   \<and> (\<exists>rest. reported (auditPlugin (world net_topics_limited) auditor0 submission_x)
          = ''Error checking repository topics: GitHub API rate limit exceeded. Resets at 1/1/2026, 12:00:00 AM''
            # rest
         \<and> (\<forall>i\<in>set rest. npm_stage_issue i))
   \<and> ''GitHub API rate limit exceeded. Resets at 1/1/2026, 12:00:00 AM''
       \<notin> set (reported (auditPlugin (world net_topics_limited) auditor0 submission_x))"
proof -
  note a = rate_limit_surfacing [OF limited_requests(1), of repo_x "world net_repo_limited"
      auditor0 "[]" 200 "''<repository>''" parse_documents submission_x]
  note b = rate_limit_surfacing [OF limited_requests(1), of _ "world net_topics_limited"
      auditor0 _ 200 "''<topics>''" _ submission_x
      "\<lparr>data = repository_document ''A plugin for things'', status = 200,
        headers = Some (quota ''1'')\<rparr>"]
  have same: "(world net_repo_limited)\<lparr>JSON_parse := parse_documents\<rparr> = world net_repo_limited"
    by (simp add: world_def)
  from a have "makeRequest (world net_repo_limited) auditor0 repo_x []
       = Inl (JsError (Some 429)
               ''GitHub API rate limit exceeded. Resets at 1/1/2026, 12:00:00 AM'' (Some 429))"
    using github_urls(1) [of submission_x]
    by (simp add: limited_requests same)
  moreover from a have "\<exists>r rest.
         outcome (auditPlugin (world net_repo_limited) auditor0 submission_x) = Resolved r
         \<and> issues r = ''GitHub API rate limit exceeded. Resets at 1/1/2026, 12:00:00 AM'' # rest
         \<and> (\<forall>i\<in>set rest. npm_stage_issue i)"
    by (simp add: limited_requests)
  moreover from b have "(\<exists>rest. reported (auditPlugin (world net_topics_limited) auditor0 submission_x)
          = ''Error checking repository topics: GitHub API rate limit exceeded. Resets at 1/1/2026, 12:00:00 AM''
            # rest
         \<and> (\<forall>i\<in>set rest. npm_stage_issue i))
     \<and> ''GitHub API rate limit exceeded. Resets at 1/1/2026, 12:00:00 AM''
       \<notin> set (reported (auditPlugin (world net_topics_limited) auditor0 submission_x))"
    by (simp add: limited_requests)
  ultimately show ?thesis
    using github_urls(1) [of submission_x] by (simp add: limited_requests)
qed

theorem topics_rate_limit_is_prefixed:
  "str_includes topics_x ''api.github.com''
   \<and> https_get (world net_topics_limited) topics_x
         (request_headers auditor0 topics_x topics_accept)
       = Response 200 (quota ''0'') ''<topics>''
   \<and> map_of (quota ''0'') ''x-ratelimit-remaining'' = Some ''0''
   \<and> makeRequest (world net_topics_limited) auditor0 topics_x topics_accept
       = Inl (JsError (Some 429)
               ''GitHub API rate limit exceeded. Resets at 1/1/2026, 12:00:00 AM'' (Some 429))
   \<and> resolved_issues (auditPlugin (world net_topics_limited) auditor0 submission_x)
       = Some [''Error checking repository topics: GitHub API rate limit exceeded. Resets at 1/1/2026, 12:00:00 AM'']
   \<and> ''GitHub API rate limit exceeded. Resets at 1/1/2026, 12:00:00 AM''
       \<notin> set (reported (auditPlugin (world net_topics_limited) auditor0 submission_x))"
  by (simp add: audit_defs js_defs request_defs world_defs url_defs net_topics_limited_def
      resolved_issues_def reported_def)

section \<open>The final return\<close>

lemma rejects_iff:
  "(\<exists>error. outcome (auditPlugin e this sub) = Rejected error) \<longleftrightarrow>
     (\<exists>repo. repoData (final (auditPlugin e this sub)) = Some repo \<and> truthy (data repo)
        \<and> nullish (prop_of (data repo) ''owner''))"
proof -
  have early: "repoData st' = None" if "audit_try e this st = Returned r st'" "repoData st = None"
    for st r st'
    using that
    by (auto simp: audit_try_def check_repository_not_Returned
        split: sum.splits bool.splits flow.splits)
  have last: "(\<exists>error. outcome (final_return st) = Rejected error) \<longleftrightarrow>
     (\<exists>repo. repoData st = Some repo \<and> truthy (data repo) \<and> nullish (prop_of (data repo) ''owner''))"
    for st
    by (auto simp: final_return_def github_metadata_def get_prop_def split: option.splits)
  show ?thesis
  proof (cases "audit_try e this (initial_state sub)")
    case (Continue st)
    then show ?thesis using last [of st] by (simp add: auditPlugin_def)
  next
    case (Returned r st)
    with early [of "initial_state sub" r st] show ?thesis
      by (simp add: auditPlugin_def initial_state_def)
  next
    case (Thrown error st)
    then show ?thesis
      using last [of "push (''Unexpected error during audit: '' @ err_message error) st"]
      by (simp add: auditPlugin_def)
  qed
qed

text \<open>
  C7 fails on the code. The submission is well formed and the repository has
  been renamed: the repository endpoint answers 301 with the body GitHub sends
  for a moved repository, which \<^verbatim>\<open>makeRequest\<close> parses and resolves with, since the
  status is below 400. The payload is truthy and has no \<^verbatim>\<open>owner\<close>, so the final
  \<^verbatim>\<open>return\<close>, which is outside the \<^verbatim>\<open>try\<close>, throws on \<^verbatim>\<open>repoData.data.owner.login\<close>:
  the promise is rejected with the TypeError instead of resolving to a result
  with an "Unexpected error during audit" issue.
\<close>

theorem missing_owner_rejects:
  "makeRequest (world net_moved) auditor0 (repo_url submission_x) []
     = Inr \<lparr>data = moved_document, status = 301, headers = Some (quota ''59'')\<rparr>
   \<and> outcome (auditPlugin (world net_moved) auditor0 submission_x)
     = Rejected (TypeError (''Cannot read properties of undefined (reading '' @ quote ''login'' @ '')''))
   \<and> reported (auditPlugin (world net_moved) auditor0 submission_x)
     = [description_issue,
        ''Error checking repository topics: Cannot read properties of undefined (reading ''
          @ quote ''includes'' @ '')'']"
  by (simp add: audit_defs js_defs request_defs world_defs url_defs net_moved_def
      reported_def issue_defs)

section \<open>The cross-reference\<close>





lemma happy_requests:
  "makeRequest (world net_happy) auditor0 repo_x []
     = Inr \<lparr>data = repository_document ''A plugin for things'', status = 200,
            headers = Some (quota ''59'')\<rparr>"
  "makeRequest (world net_happy) auditor0 topics_x topics_accept
     = Inr \<lparr>data = topics_document, status = 200, headers = Some (quota ''58'')\<rparr>"
  "makeRequest (world net_happy) auditor0 package_x []
     = Inr \<lparr>data = package_document, status = 200, headers = Some []\<rparr>"
  by (simp_all add: request_defs net_happy_def world_def serve_def parse_documents_def
      quota_def repo_x_def topics_x_def package_x_def auditor0_def topics_accept_def)


section \<open>The author in the metadata\<close>

lemma resolved_npm:
  assumes "outcome (auditPlugin e this sub) = Resolved r" and "metadata r = Some m"
  shows "npm m = npm_metadata (final (auditPlugin e this sub))"
proof (cases "audit_try e this (initial_state sub)")
  case (Continue st)
  with assms show ?thesis
    by (auto simp: auditPlugin_def final_return_def split: sum.splits)
next
  case (Returned a st)
  then have "metadata a = None"
    by (auto simp: audit_try_def check_repository_not_Returned
        split: sum.splits bool.splits flow.splits)
  with Returned assms show ?thesis by (simp add: auditPlugin_def)
next
  case (Thrown error st)
  with assms show ?thesis
    by (auto simp: auditPlugin_def final_return_def split: sum.splits)
qed

lemma resolved_npm_audit_js:
  assumes "outcome (auditPlugin_audit_js e this sub) = Resolved r" and "metadata r = Some m"
  shows "npm_metadata_audit_js (final (auditPlugin_audit_js e this sub)) = Inr (npm m)"
proof (cases "audit_try_audit_js e this (initial_state sub)")
  case (Continue st)
  with assms show ?thesis
    by (auto simp: auditPlugin_audit_js_def final_return_audit_js_def split: sum.splits)
next
  case (Returned a st)
  then have "metadata a = None"
    by (auto simp: audit_try_audit_js_def check_repository_audit_js_not_Returned
        check_topics_audit_js_def check_npm_audit_js_def Let_def
        split: sum.splits bool.splits flow.splits prod.splits)
  with Returned assms show ?thesis by (simp add: auditPlugin_audit_js_def)
next
  case (Thrown error st)
  with assms show ?thesis
    by (auto simp: auditPlugin_audit_js_def final_return_audit_js_def split: sum.splits)
qed

lemma structured_normalize_author: "structured_author (normalize_author a)"
  by (simp add: structured_author_def normalize_author_def)

text \<open>
  C8, as the code has it. In the copy of \<^verbatim>\<open>src/unnamed/part_000\<close> the author is
  normalized: an author already in the structured form \<^verbatim>\<open>{name, email, url}\<close> is
  mapped to the same structure, any object author keeps its \<^verbatim>\<open>name\<close>, \<^verbatim>\<open>email\<close> and
  \<^verbatim>\<open>url\<close>, the bare string "Jane Doe" becomes \<^verbatim>\<open>{name: "Jane Doe", email: null, url:
  null}\<close>, and every author in \<^verbatim>\<open>metadata.npm\<close> is in the structured form. The copy of
  \<^verbatim>\<open>src/audit.js\<close> copies the payload's author into \<^verbatim>\<open>metadata.npm\<close> as it is.
\<close>

theorem author_normalization:
  "normalize_author (VObj [(''name'', n), (''email'', m), (''url'', u)])
     = VObj [(''name'', n), (''email'', m), (''url'', u)]
   \<and> (\<forall>k\<in>{''name'', ''email'', ''url''}.
         prop_of (normalize_author (VObj kvs)) k = prop_of (VObj kvs) k)
   \<and> normalize_author (VStr ''Jane Doe'')
       = VObj [(''name'', VStr ''Jane Doe''), (''email'', VNull), (''url'', VNull)]
   \<and> (reported_author (auditPlugin e this sub) = Some a \<longrightarrow>
        a = normalize_author (prop_of (npmData (final (auditPlugin e this sub))) ''author'')
        \<and> structured_author a)
   \<and> (reported_author (auditPlugin_audit_js e this sub) = Some a' \<longrightarrow>
        a' = prop_of (npmData (final (auditPlugin_audit_js e this sub))) ''author'')"
proof -
  have same: "normalize_author (VObj [(''name'', n), (''email'', m), (''url'', u)])
     = VObj [(''name'', n), (''email'', m), (''url'', u)]"
    by (simp add: normalize_author_def)
  have fields: "\<forall>k\<in>{''name'', ''email'', ''url''}.
         prop_of (normalize_author (VObj kvs)) k = prop_of (VObj kvs) k"
    by (simp add: normalize_author_def)
  have bare: "normalize_author (VStr ''Jane Doe'')
       = VObj [(''name'', VStr ''Jane Doe''), (''email'', VNull), (''url'', VNull)]"
    by (simp add: normalize_author_def)
  have new: "a = normalize_author (prop_of (npmData (final (auditPlugin e this sub))) ''author'')
        \<and> structured_author a"
    if h: "reported_author (auditPlugin e this sub) = Some a"
  proof -
    from h obtain r md where r: "outcome (auditPlugin e this sub) = Resolved r"
        "metadata r = Some md" "npm md \<noteq> VNull" "a = prop_of (npm md) ''author''"
      by (auto simp: reported_author_def split: outcome.splits option.splits if_splits)
    from resolved_npm [OF r(1,2)] r(3,4)
    have "a = normalize_author (prop_of (npmData (final (auditPlugin e this sub))) ''author'')"
      by (simp add: npm_metadata_def split: if_splits)
    then show ?thesis by (simp add: structured_normalize_author)
  qed
  have old: "a' = prop_of (npmData (final (auditPlugin_audit_js e this sub))) ''author''"
    if h: "reported_author (auditPlugin_audit_js e this sub) = Some a'"
  proof -
    from h obtain r md where r: "outcome (auditPlugin_audit_js e this sub) = Resolved r"
        "metadata r = Some md" "npm md \<noteq> VNull" "a' = prop_of (npm md) ''author''"
      by (auto simp: reported_author_def split: outcome.splits option.splits if_splits)
    from resolved_npm_audit_js [OF r(1,2), symmetric] r(3,4)
    show ?thesis
      by (auto simp: npm_metadata_audit_js_def split: if_splits sum.splits)
  qed
  from same fields bare new old show ?thesis by blast
qed

lemma happy_run_audit_js:
  "outcome (auditPlugin_audit_js (world net_happy) auditor0 submission_x)
     = Resolved happy_result_audit_js"
  "npmData (final (auditPlugin_audit_js (world net_happy) auditor0 submission_x))
     = package_document"
  by (simp_all add: audit_defs audit_js_defs js_defs request_defs world_defs url_defs
      net_happy_def happy_result_audit_js_def)

theorem author_normalization_witness:
  "reported_author (auditPlugin (world net_happy) auditor0 submission_x)
     = Some (VObj [(''name'', VStr ''Jane Doe''), (''email'', VNull), (''url'', VNull)])
   \<and> structured_author (VObj [(''name'', VStr ''Jane Doe''), (''email'', VNull), (''url'', VNull)])
   \<and> normalize_author (VObj [(''name'', VStr ''Jane Doe''), (''email'', VNull), (''url'', VNull)])
       = VObj [(''name'', VStr ''Jane Doe''), (''email'', VNull), (''url'', VNull)]
   \<and> reported_author (auditPlugin_audit_js (world net_happy) auditor0 submission_x)
       = Some (VStr ''Jane Doe'')
   \<and> prop_of (npmData (final (auditPlugin_audit_js (world net_happy) auditor0 submission_x)))
         ''author'' = VStr ''Jane Doe''"
proof -
  have a: "reported_author (auditPlugin (world net_happy) auditor0 submission_x)
     = Some (VObj [(''name'', VStr ''Jane Doe''), (''email'', VNull), (''url'', VNull)])"
    by (simp add: reported_author_def happy_run happy_result_def)
  have b: "reported_author (auditPlugin_audit_js (world net_happy) auditor0 submission_x)
       = Some (VStr ''Jane Doe'')"
    by (simp add: reported_author_def happy_run_audit_js happy_result_audit_js_def)
  note inst = author_normalization [of "VStr ''Jane Doe''" VNull VNull "[]" "world net_happy"
      auditor0 submission_x
      "VObj [(''name'', VStr ''Jane Doe''), (''email'', VNull), (''url'', VNull)]"
      "VStr ''Jane Doe''"]
  from inst a
  have s1: "structured_author
      (VObj [(''name'', VStr ''Jane Doe''), (''email'', VNull), (''url'', VNull)])"
    by blast
  from inst b
  have s2: "VStr ''Jane Doe''
      = prop_of (npmData (final (auditPlugin_audit_js (world net_happy) auditor0 submission_x)))
          ''author''"
    by blast
  from inst
  have s3: "normalize_author (VObj [(''name'', VStr ''Jane Doe''), (''email'', VNull), (''url'', VNull)])
       = VObj [(''name'', VStr ''Jane Doe''), (''email'', VNull), (''url'', VNull)]"
    by blast
  from a b s1 s2 [symmetric] s3 show ?thesis by blast
qed

theorem author_is_copied_audit_js:
  "prop_of package_document ''author'' = VStr ''Jane Doe''
   \<and> npmData (final (auditPlugin_audit_js (world net_happy) auditor0 submission_x))
       = package_document
   \<and> reported_author (auditPlugin_audit_js (world net_happy) auditor0 submission_x)
       = Some (VStr ''Jane Doe'')
   \<and> \<not> structured_author (VStr ''Jane Doe'')"
  by (simp add: reported_author_def happy_run_audit_js happy_result_audit_js_def
      structured_author_def package_document_def)

section \<open>A repository that meets the requirements\<close>

lemma has_maiar_found:
  assumes "prop_of payload ''names'' = VArr names" and "VStr ''maiar'' \<in> set names"
  shows "has_maiar payload = Inr True"
proof -
  from assms(1) have "\<not> nullish payload" by (cases payload) simp_all
  with assms show ?thesis by (simp add: has_maiar_def get_prop_def)
qed

lemma check_topics_found:
  assumes "makeRequest e this (topics_url (submission st)) topics_accept = Inr topics"
    and "has_maiar (data topics) = Inr True"
  shows "issues_acc (check_topics e this st) = issues_acc st"
  using assms by (simp add: check_topics_def await_makeRequest_def)

lemma good_repository:
  assumes "\<not> truthy (prop_of payload ''private'')"
    and "prop_of payload ''description'' = VStr d" and "10 \<le> length (trim d)"
  shows "checks_apply payload" and "repository_issues payload = []"
proof -
  from assms(2) have "\<not> nullish payload" by (cases payload) simp_all
  with assms(2) show "checks_apply payload" by (simp add: checks_apply_def)
  from assms show "repository_issues payload = []" by (simp add: repository_issues_def)
qed

lemma repository_issue_hd:
  "hd not_public_issue = CHR ''R''" "hd description_issue = CHR ''R''" "hd topic_issue = CHR ''R''"
  by (simp_all add: issue_defs)

lemma npm_stage_issue_not_R: "npm_stage_issue i \<Longrightarrow> hd i \<noteq> CHR ''R''"
  using npm_stage_issue_hd [of i] by auto

lemma check_npm_audit_js_issues:
  "\<exists>rest. issues_acc (state_of (check_npm_audit_js e this st)) = issues_acc st @ rest
          \<and> (\<forall>i\<in>set rest. npm_stage_issue i)"
  by (auto simp: check_npm_audit_js_def await_makeRequest_audit_js_def npm_catch_def
      npm_stage_issue_def Let_def split: sum.splits)

lemma repo_ok_run_audit_js:
  assumes "fields_present sub" and "makeRequest_audit_js e this (repo_url sub) [] = Inr repo"
    and "checks_apply (data repo)"
    and "makeRequest_audit_js e this (topics_url sub) topics_accept = Inr topics"
    and "has_maiar (data topics) = Inr True"
  shows "audit_try_audit_js e this (initial_state sub) =
           check_npm_audit_js e this
             \<lparr>submission = sub, issues_acc = repository_issues (data repo),
              repoData = Some repo, npmData = VNull,
              requests = [(repo_url sub, request_headers_audit_js this (repo_url sub) []),
                          (topics_url sub,
                           request_headers_audit_js this (topics_url sub) topics_accept)]\<rparr>"
proof -
  from assms(1) have "fields_missing sub = Inr False" by (simp add: fields_missing_iff)
  moreover from assms(3)
  have "get_prop (data repo) ''private'' = Inr (prop_of (data repo) ''private'')"
    by (simp add: checks_apply_def get_prop_def)
  ultimately show ?thesis
    using assms(2,4,5) description_too_short_eq [OF assms(3)]
    by (simp add: audit_try_audit_js_def initial_state_def await_makeRequest_audit_js_def
        check_repository_audit_js_def check_topics_audit_js_def repository_issues_def push_def)
qed

lemma reported_audit_js_cases:
  "reported (auditPlugin_audit_js e this sub)
     = issues_acc (state_of (audit_try_audit_js e this (initial_state sub)))
   \<or> (\<exists>error. reported (auditPlugin_audit_js e this sub)
        = issues_acc (state_of (audit_try_audit_js e this (initial_state sub)))
          @ [''Unexpected error during audit: '' @ err_message error])"
  by (cases "audit_try_audit_js e this (initial_state sub)")
     (auto simp: auditPlugin_audit_js_def reported_def)

text \<open>
  C9, as the code has it. When the repository fetch succeeds with a payload that
  is public and whose description, once trimmed of white space at both ends,
  has at least 10 characters, and the topics fetch succeeds with a name list
  that contains "maiar", none of "Repository must be public", the
  minimum-description issue and the missing-topic issue is among the issues,
  in either copy. The issues meant are those of the array every returned result
  carries.
\<close>

theorem repository_checks_pass:
  assumes "fields_present sub"
    and "\<not> truthy (prop_of (data repo) ''private'')"
    and "prop_of (data repo) ''description'' = VStr d" and "10 \<le> length (trim d)"
    and "prop_of (data topics) ''names'' = VArr names" and "VStr ''maiar'' \<in> set names"
  shows "(makeRequest e this (repo_url sub) [] = Inr repo
            \<and> makeRequest e this (topics_url sub) topics_accept = Inr topics \<longrightarrow>
          not_public_issue \<notin> set (reported (auditPlugin e this sub))
          \<and> description_issue \<notin> set (reported (auditPlugin e this sub))
          \<and> topic_issue \<notin> set (reported (auditPlugin e this sub)))
       \<and> (makeRequest_audit_js e this (repo_url sub) [] = Inr repo
            \<and> makeRequest_audit_js e this (topics_url sub) topics_accept = Inr topics \<longrightarrow>
          not_public_issue \<notin> set (reported (auditPlugin_audit_js e this sub))
          \<and> description_issue \<notin> set (reported (auditPlugin_audit_js e this sub))
          \<and> topic_issue \<notin> set (reported (auditPlugin_audit_js e this sub)))
       \<and> (\<forall>r. outcome (auditPlugin e this sub) = Resolved r
              \<longrightarrow> issues r = reported (auditPlugin e this sub))
       \<and> (\<forall>r. outcome (auditPlugin_audit_js e this sub) = Resolved r
              \<longrightarrow> issues r = reported (auditPlugin_audit_js e this sub))"
proof -
  note good = good_repository [OF assms(2,3,4)]
  note found = has_maiar_found [OF assms(5,6)]
  have new: "\<forall>i\<in>set (reported (auditPlugin e this sub)). hd i \<noteq> CHR ''R''"
    if h: "makeRequest e this (repo_url sub) [] = Inr repo
            \<and> makeRequest e this (topics_url sub) topics_accept = Inr topics"
  proof -
    define st1 where "st1 = \<lparr>submission = sub, issues_acc = repository_issues (data repo),
        repoData = Some repo, npmData = VNull,
        requests = [(repo_url sub, request_headers this (repo_url sub) [])]\<rparr>"
    from h assms(1) good(1)
    have run: "auditPlugin e this sub = final_return (check_npm e this (check_topics e this st1))"
      by (simp add: repo_ok_run st1_def)
    from h found have "issues_acc (check_topics e this st1) = []"
      by (simp add: check_topics_found st1_def good(2))
    with check_npm_issues [of e this "check_topics e this st1"]
    obtain rest where "issues_acc (check_npm e this (check_topics e this st1)) = rest"
        "\<forall>i\<in>set rest. npm_stage_issue i"
      by auto
    then show ?thesis
      by (auto simp: reported_def run dest: npm_stage_issue_not_R)
  qed
  have old: "\<forall>i\<in>set (reported (auditPlugin_audit_js e this sub)). hd i \<noteq> CHR ''R''"
    if h: "makeRequest_audit_js e this (repo_url sub) [] = Inr repo
            \<and> makeRequest_audit_js e this (topics_url sub) topics_accept = Inr topics"
  proof -
    define st1 where "st1 = \<lparr>submission = sub, issues_acc = repository_issues (data repo),
        repoData = Some repo, npmData = VNull,
        requests = [(repo_url sub, request_headers_audit_js this (repo_url sub) []),
                    (topics_url sub,
                     request_headers_audit_js this (topics_url sub) topics_accept)]\<rparr>"
    from h assms(1) good(1) found
    have body: "audit_try_audit_js e this (initial_state sub) = check_npm_audit_js e this st1"
      by (simp add: repo_ok_run_audit_js st1_def)
    from check_npm_audit_js_issues [of e this st1]
    obtain rest where rest: "issues_acc (state_of (check_npm_audit_js e this st1)) = rest"
        "\<forall>i\<in>set rest. npm_stage_issue i"
      by (auto simp: st1_def good(2))
    from rest(2) have "\<forall>i\<in>set rest. hd i \<noteq> CHR ''R''"
      by (auto dest: npm_stage_issue_not_R)
    with reported_audit_js_cases [of e this sub] show ?thesis
      by (auto simp: body rest(1))
  qed
  from new old repository_issue_hd resolved_reported [of e this sub] show ?thesis
    by (intro conjI impI allI) auto
qed

lemma happy_requests_audit_js:
  "makeRequest_audit_js (world net_happy) auditor0 repo_x []
     = Inr \<lparr>data = repository_document ''A plugin for things'', status = 200, headers = None\<rparr>"
  "makeRequest_audit_js (world net_happy) auditor0 topics_x topics_accept
     = Inr \<lparr>data = topics_document, status = 200, headers = None\<rparr>"
  by (simp_all add: request_defs net_happy_def world_def serve_def parse_documents_def
      quota_def repo_x_def topics_x_def package_x_def auditor0_def topics_accept_def)

lemma documents_x:
  "prop_of (repository_document d) ''private'' = VBool False"
  "prop_of (repository_document d) ''description'' = VStr d"
  "prop_of topics_document ''names'' = VArr [VStr ''maiar'']"
  by (simp_all add: repository_document_def topics_document_def)

theorem repository_checks_pass_witness:
  "fields_present submission_x
   \<and> prop_of (repository_document ''A plugin for things'') ''private'' = VBool False
   \<and> prop_of (repository_document ''A plugin for things'') ''description''
       = VStr ''A plugin for things''
   \<and> length (trim ''A plugin for things'') = 19
   \<and> prop_of topics_document ''names'' = VArr [VStr ''maiar'']
   \<and> makeRequest (world net_happy) auditor0 (repo_url submission_x) []
       = Inr \<lparr>data = repository_document ''A plugin for things'', status = 200,
              headers = Some (quota ''59'')\<rparr>
   \<and> makeRequest (world net_happy) auditor0 (topics_url submission_x) topics_accept
       = Inr \<lparr>data = topics_document, status = 200, headers = Some (quota ''58'')\<rparr>
   \<and> makeRequest_audit_js (world net_happy) auditor0 (repo_url submission_x) []
       = Inr \<lparr>data = repository_document ''A plugin for things'', status = 200, headers = None\<rparr>
   \<and> makeRequest_audit_js (world net_happy) auditor0 (topics_url submission_x) topics_accept
       = Inr \<lparr>data = topics_document, status = 200, headers = None\<rparr>
   \<and> not_public_issue \<notin> set (reported (auditPlugin (world net_happy) auditor0 submission_x))
   \<and> description_issue \<notin> set (reported (auditPlugin (world net_happy) auditor0 submission_x))
   \<and> topic_issue \<notin> set (reported (auditPlugin (world net_happy) auditor0 submission_x))
   \<and> not_public_issue
       \<notin> set (reported (auditPlugin_audit_js (world net_happy) auditor0 submission_x))
   \<and> description_issue
       \<notin> set (reported (auditPlugin_audit_js (world net_happy) auditor0 submission_x))
   \<and> topic_issue
       \<notin> set (reported (auditPlugin_audit_js (world net_happy) auditor0 submission_x))"
proof -
  have len: "length (trim ''A plugin for things'') = 19"
    by (simp add: trim_def is_space_def)
  have a: "\<not> truthy (prop_of (data \<lparr>data = repository_document ''A plugin for things'',
      status = 200, headers = Some (quota ''59'')\<rparr>) ''private'')"
    by (simp add: documents_x)
  have b: "prop_of (data \<lparr>data = repository_document ''A plugin for things'',
      status = 200, headers = Some (quota ''59'')\<rparr>) ''description'' = VStr ''A plugin for things''"
    by (simp add: documents_x)
  have c: "10 \<le> length (trim ''A plugin for things'')"
    by (simp add: len)
  have d: "prop_of (data \<lparr>data = topics_document, status = 200,
      headers = Some (quota ''58'')\<rparr>) ''names'' = VArr [VStr ''maiar'']"
    by (simp add: documents_x)
  have a': "\<not> truthy (prop_of (data \<lparr>data = repository_document ''A plugin for things'',
      status = 200, headers = None\<rparr>) ''private'')"
    by (simp add: documents_x)
  have b': "prop_of (data \<lparr>data = repository_document ''A plugin for things'',
      status = 200, headers = None\<rparr>) ''description'' = VStr ''A plugin for things''"
    by (simp add: documents_x)
  have d': "prop_of (data \<lparr>data = topics_document, status = 200,
      headers = None\<rparr>) ''names'' = VArr [VStr ''maiar'']"
    by (simp add: documents_x)
  have m: "VStr ''maiar'' \<in> set [VStr ''maiar'']" by simp
  from repository_checks_pass [OF fields_present_x a b c d m, of "world net_happy" auditor0]
  have new: "not_public_issue \<notin> set (reported (auditPlugin (world net_happy) auditor0 submission_x))
     \<and> description_issue \<notin> set (reported (auditPlugin (world net_happy) auditor0 submission_x))
     \<and> topic_issue \<notin> set (reported (auditPlugin (world net_happy) auditor0 submission_x))"
    by (simp add: happy_requests)
  from repository_checks_pass [OF fields_present_x a' b' c d' m, of "world net_happy" auditor0]
  have old: "not_public_issue
       \<notin> set (reported (auditPlugin_audit_js (world net_happy) auditor0 submission_x))
     \<and> description_issue
       \<notin> set (reported (auditPlugin_audit_js (world net_happy) auditor0 submission_x))
     \<and> topic_issue
       \<notin> set (reported (auditPlugin_audit_js (world net_happy) auditor0 submission_x))"
    by (simp add: happy_requests_audit_js)
  from new old len show ?thesis
    by (simp add: happy_requests happy_requests_audit_js documents_x)
qed

theorem padded_description_is_short:
  "fields_present submission_x
   \<and> makeRequest (world net_padded) auditor0 (repo_url submission_x) []
       = Inr \<lparr>data = repository_document ''My plugin '', status = 200,
              headers = Some (quota ''59'')\<rparr>
   \<and> prop_of (repository_document ''My plugin '') ''private'' = VBool False
   \<and> prop_of (repository_document ''My plugin '') ''description'' = VStr ''My plugin ''
   \<and> length ''My plugin '' = 10
   \<and> makeRequest (world net_padded) auditor0 (topics_url submission_x) topics_accept
       = Inr \<lparr>data = topics_document, status = 200, headers = Some (quota ''58'')\<rparr>
   \<and> prop_of topics_document ''names'' = VArr [VStr ''maiar'']
   \<and> resolved_issues (auditPlugin (world net_padded) auditor0 submission_x)
       = Some [description_issue]
   \<and> resolved_issues (auditPlugin_audit_js (world net_padded) auditor0 submission_x)
       = Some [description_issue]"
  by (simp add: audit_defs audit_js_defs js_defs request_defs world_defs url_defs net_padded_def
      resolved_issues_def fields_present_def)

end
